theory Spec2Isabelle
  imports Complex_Main "HOL-Library.AList" "HOL-Library.Char_ord" "HOL-Library.List_Lexorder"
begin

section \<open>The bus directory\<close>

text \<open>
  The server keeps its whole state in three directories under \<open>BUS_DIR\<close>:
  \<open>requests/\<close> and \<open>responses/\<close> hold one file \<open><id>.json\<close> per open record,
  \<open>history/\<close> holds one sub-directory per archive stamp with the files
  \<open>request_<id>.json\<close> and \<open>response_<id>.json\<close>. A directory is an association
  list from the request id to the file (its order is the order a listing gives); writing
  a file is \<open>AList.update\<close>, renaming it away is \<open>AList.delete\<close>. The key of an entry
  is the id in its file name; the id \<open>oracle_call\<close> makes is the head of a UUID text and
  has no \<open>/\<close> in it, the id given to \<open>respond_to_oracle_call\<close> may have, and is
  resolved as a path there.

  A file holds text. What the code does with it is \<open>json.load\<close>, whose outcomes are:
  the text is not JSON (\<open>JSONDecodeError\<close>), it is \<open>null\<close> (Python \<open>None\<close>), it is
  some other value that is not an object (no \<open>.get\<close>), or it is an object. The fields of
  an object are scalars here (text, integer, boolean, null), which is what the records of
  this program hold; floats and nested containers are left out of the value type.
\<close>

type_synonym rid = string

datatype jval = JStr string | JInt int | JBool bool | JNull

type_synonym obj = "(string \<times> jval) list"

datatype json = Null | NonDict | Dict obj

datatype fcontent = Garbled | Json json

datatype error =
    JSONDecodeError | AttributeError | TypeError | IsADirectoryError | FileNotFoundError
  | Unmodelled

type_synonym dir = "(rid \<times> fcontent) list"

record hdir =
  hreq :: dir
  hresp :: dir

record bus =
  requests :: dir
  responses :: dir
  history :: "(string \<times> hdir) list"

text \<open>The directories as the server creates them at start-up, when none exists yet.\<close>

definition empty_bus :: bus where
  "empty_bus = \<lparr>requests = [], responses = [], history = []\<rparr>"

definition json_load :: "fcontent \<Rightarrow> error + json" where
  "json_load f = (case f of Garbled \<Rightarrow> Inl JSONDecodeError | Json j \<Rightarrow> Inr j)"

text \<open>\<open>d.get(key, default)\<close>; \<open>None\<close> and a non-object have no such method.\<close>

definition py_get :: "json \<Rightarrow> string \<Rightarrow> jval \<Rightarrow> error + jval" where
  "py_get j k dflt =
     (case j of
        Dict d \<Rightarrow> Inr (case map_of d k of None \<Rightarrow> dflt | Some v \<Rightarrow> v)
      | _ \<Rightarrow> Inl AttributeError)"

definition andthen :: "error + 'a \<Rightarrow> ('a \<Rightarrow> error + 'b) \<Rightarrow> error + 'b" where
  "andthen r f = (case r of Inl e \<Rightarrow> Inl e | Inr x \<Rightarrow> f x)"

subsection \<open>Text of a value\<close>

definition digit :: "nat \<Rightarrow> char" where
  "digit n = ''0123456789'' ! n"

fun dec_nat :: "nat \<Rightarrow> string" where
  "dec_nat n = (if n < 10 then [digit n] else dec_nat (n div 10) @ [digit (n mod 10)])"

definition dec_int :: "int \<Rightarrow> string" where
  "dec_int i = (if i < 0 then CHR ''-'' # dec_nat (nat (- i)) else dec_nat (nat i))"

text \<open>\<open>str(v)\<close>, as an f-string applies it.\<close>

fun py_str :: "jval \<Rightarrow> string" where
  "py_str (JStr s) = s"
| "py_str (JInt i) = dec_int i"
| "py_str (JBool b) = (if b then ''True'' else ''False'')"
| "py_str JNull = ''None''"

text \<open>
  \<open>v[:n]\<close>: only text can be sliced among the scalars. Text is ASCII text here, one
  element of the list for each code point; for other text \<open>take\<close> would count bytes
  where Python counts code points.
\<close>

fun py_slice :: "nat \<Rightarrow> jval \<Rightarrow> error + jval" where
  "py_slice n (JStr s) = Inr (JStr (take n s))"
| "py_slice n _ = Inl TypeError"

definition upper_char :: "char \<Rightarrow> char" where
  "upper_char c =
     (case map_of (zip ''abcdefghijklmnopqrstuvwxyz'' ''ABCDEFGHIJKLMNOPQRSTUVWXYZ'') c of
        None \<Rightarrow> c
      | Some u \<Rightarrow> u)"

text \<open>
  \<open>v.upper()\<close>: a method of text only. The letters a to z are mapped, which is what
  \<open>str.upper\<close> does on ASCII text; its mapping of other letters is left out.
\<close>

fun py_upper :: "jval \<Rightarrow> error + jval" where
  "py_upper (JStr s) = Inr (JStr (map upper_char s))"
| "py_upper _ = Inl AttributeError"

section \<open>Store operations\<close>

text \<open>
  \<open>_write_request\<close>: \<open>open(path, "w")\<close> and \<open>json.dump\<close>; the file is created or
  overwritten, and reading it back gives the dictionary that was written. (The leading
  underscore of the source's private names is dropped.)
\<close>

definition write_request :: "rid \<Rightarrow> obj \<Rightarrow> bus \<Rightarrow> bus" where
  "write_request request_id data b =
     b\<lparr>requests := AList.update request_id (Json (Dict data)) (requests b)\<rparr>"

text \<open>\<open>_read_response\<close>: \<open>None\<close> when the path does not exist, else what \<open>json.load\<close> gives.\<close>

definition read_response :: "rid \<Rightarrow> bus \<Rightarrow> error + json" where
  "read_response request_id b =
     (case map_of (responses b) request_id of
        None \<Rightarrow> Inr Null
      | Some f \<Rightarrow> json_load f)"

subsection \<open>\<open>_archive_exchange\<close>\<close>

text \<open>
  The stamp is the UTC time to the second, \<open>%Y%m%d_%H%M%S\<close>, read once at the top of the
  call; the model takes it as an argument. The call is three file-system steps:
  \<open>mkdir(parents=True, exist_ok=True)\<close>, then a rename of the request file if it exists,
  then a rename of the response file if it exists. A rename replaces a file of the same
  name in the target directory.
\<close>

definition empty_hdir :: hdir where
  "empty_hdir = \<lparr>hreq = [], hresp = []\<rparr>"

definition mk_archive_dir :: "string \<Rightarrow> bus \<Rightarrow> bus" where
  "mk_archive_dir stamp b =
     (if stamp \<in> fst ` set (history b) then b
      else b\<lparr>history := history b @ [(stamp, empty_hdir)]\<rparr>)"

fun in_dir :: "string \<Rightarrow> (hdir \<Rightarrow> hdir) \<Rightarrow> (string \<times> hdir) list \<Rightarrow> (string \<times> hdir) list" where
  "in_dir stamp f [] = []"
| "in_dir stamp f ((s, d) # hs) = (if s = stamp then (s, f d) # hs else (s, d) # in_dir stamp f hs)"

definition move_request :: "string \<Rightarrow> rid \<Rightarrow> bus \<Rightarrow> bus" where
  "move_request stamp request_id b =
     (case map_of (requests b) request_id of
        None \<Rightarrow> b
      | Some f \<Rightarrow>
          b\<lparr>requests := AList.delete request_id (requests b),
            history := in_dir stamp (\<lambda>d. d\<lparr>hreq := AList.update request_id f (hreq d)\<rparr>) (history b)\<rparr>)"

definition move_response :: "string \<Rightarrow> rid \<Rightarrow> bus \<Rightarrow> bus" where
  "move_response stamp request_id b =
     (case map_of (responses b) request_id of
        None \<Rightarrow> b
      | Some f \<Rightarrow>
          b\<lparr>responses := AList.delete request_id (responses b),
            history := in_dir stamp (\<lambda>d. d\<lparr>hresp := AList.update request_id f (hresp d)\<rparr>) (history b)\<rparr>)"

definition archive_exchange :: "string \<Rightarrow> rid \<Rightarrow> bus \<Rightarrow> bus" where
  "archive_exchange stamp request_id b =
     move_response stamp request_id (move_request stamp request_id (mk_archive_dir stamp b))"

section \<open>\<open>respond_to_oracle_call\<close>\<close>

subsection \<open>The two paths built from the id\<close>

text \<open>
  The id is an argument of the tool, any text. The code joins it into two paths,
  \<open>REQUESTS_DIR / f"{request_id}.json"\<close> and \<open>RESPONSES_DIR / f"{request_id}.json"\<close>, so
  an id with \<open>/\<close> in it names a file by a path: \<open>pathlib\<close> drops the empty and the
  \<open>.\<close> components when it joins, and the system resolves what is left from the
  partition directory, one component at a time, \<open>..\<close> being the parent directory and
  any other component a directory that has to exist (POSIX, no symbolic links). The last
  component, with \<open>.json\<close> appended, is the file name.

  The bus directory holds the directories \<open>requests\<close>, \<open>responses\<close> and \<open>history\<close>
  and nothing else; a directory of the bus is given by its components below \<open>BUS_DIR\<close>.
  A path that leaves \<open>BUS_DIR\<close> through \<open>..\<close>, or an id that begins with \<open>/\<close> (an
  absolute path, which replaces the partition directory in the join), names a file that
  is no part of the state modelled here: its place is \<open>Outside\<close>, the model answers
  \<open>Unmodelled\<close> for it, and no theorem speaks of such an id.
\<close>

datatype place =
    Request_file rid
  | Response_file rid
  | Archived_request string rid
  | Archived_response string rid
  | A_directory
  | No_entry
  | Unheld
  | Outside

text \<open>\<open>s.split(c)\<close>.\<close>

fun split_on :: "char \<Rightarrow> string \<Rightarrow> string list" where
  "split_on c [] = [[]]"
| "split_on c (x # xs) =
     (if x = c then [] # split_on c xs
      else (case split_on c xs of [] \<Rightarrow> [[x]] | p # ps \<Rightarrow> (x # p) # ps))"

fun strip_prefix :: "string \<Rightarrow> string \<Rightarrow> string option" where
  "strip_prefix [] s = Some s"
| "strip_prefix (p # ps) [] = None"
| "strip_prefix (p # ps) (c # cs) = (if p = c then strip_prefix ps cs else None)"

definition is_dir :: "bus \<Rightarrow> string list \<Rightarrow> bool" where
  "is_dir b d =
     (d = [] \<or> d = [''requests''] \<or> d = [''responses''] \<or> d = [''history'']
      \<or> (case d of [h, stamp] \<Rightarrow> h = ''history'' \<and> stamp \<in> fst ` set (history b) | _ \<Rightarrow> False))"

datatype reached = At "string list" | Missing | Left

text \<open>
  Resolving the directory components from the directory \<open>d\<close>: \<open>Left\<close> when \<open>..\<close> is met
  at \<open>BUS_DIR\<close> itself, \<open>Missing\<close> when a component names no directory (no entry, or a
  file).
\<close>

fun walk :: "bus \<Rightarrow> string list \<Rightarrow> string list \<Rightarrow> reached" where
  "walk b d [] = At d"
| "walk b d (c # cs) =
     (if c = ''..'' then (if d = [] then Left else walk b (butlast d) cs)
      else if is_dir b (d @ [c]) then walk b (d @ [c]) cs
      else Missing)"

text \<open>
  The file \<open><stem>.json\<close> in the directory \<open>d\<close>. The requests and responses directories
  hold the files \<open><id>.json\<close>; a history directory holds \<open>request_<id>.json\<close> and
  \<open>response_<id>.json\<close>; in \<open>history\<close> itself the name can only be that of a directory;
  the model holds no other file (\<open>Unheld\<close>: a name that does not exist).
\<close>

definition file_in :: "bus \<Rightarrow> string list \<Rightarrow> string \<Rightarrow> place" where
  "file_in b d stem =
     (if d = [''requests''] then Request_file stem
      else if d = [''responses''] then Response_file stem
      else if d = [''history''] then
        (if stem @ ''.json'' \<in> fst ` set (history b) then A_directory else Unheld)
      else (case d of
              [h, stamp] \<Rightarrow>
                (case strip_prefix ''request_'' stem of
                   Some x \<Rightarrow> Archived_request stamp x
                 | None \<Rightarrow>
                     (case strip_prefix ''response_'' stem of
                        Some x \<Rightarrow> Archived_response stamp x
                      | None \<Rightarrow> Unheld))
            | _ \<Rightarrow> Unheld))"

text \<open>
  \<open>part_dir / f"{request_id}.json"\<close>, resolved, \<open>part\<close> being \<open>requests\<close> or \<open>responses\<close>. The components of the joined path are
  those of the id, the last one with \<open>.json\<close> appended; that last one is never empty nor
  \<open>.\<close>, so it is the file name, and the others, without the empty and the \<open>.\<close> ones,
  are the directories to go through.
\<close>

definition locate :: "bus \<Rightarrow> string \<Rightarrow> string \<Rightarrow> place" where
  "locate b part request_id =
     (if take 1 request_id = ''/'' then Outside
      else (let segments = split_on CHR ''/'' request_id;
                dirs = filter (\<lambda>p. p \<noteq> [] \<and> p \<noteq> ''.'') (butlast segments)
            in case walk b [part] dirs of
                 Left \<Rightarrow> Outside
               | Missing \<Rightarrow> No_entry
               | At d \<Rightarrow> file_in b d (last segments)))"

text \<open>The file at a place, if there is one, and writing the file at a place.\<close>

fun content_at :: "bus \<Rightarrow> place \<Rightarrow> fcontent option" where
  "content_at b (Request_file k) = map_of (requests b) k"
| "content_at b (Response_file k) = map_of (responses b) k"
| "content_at b (Archived_request stamp k) =
     (case map_of (history b) stamp of None \<Rightarrow> None | Some d \<Rightarrow> map_of (hreq d) k)"
| "content_at b (Archived_response stamp k) =
     (case map_of (history b) stamp of None \<Rightarrow> None | Some d \<Rightarrow> map_of (hresp d) k)"
| "content_at b A_directory = None"
| "content_at b No_entry = None"
| "content_at b Unheld = None"
| "content_at b Outside = None"

fun write_at :: "place \<Rightarrow> fcontent \<Rightarrow> bus \<Rightarrow> bus" where
  "write_at (Request_file k) f b = b\<lparr>requests := AList.update k f (requests b)\<rparr>"
| "write_at (Response_file k) f b = b\<lparr>responses := AList.update k f (responses b)\<rparr>"
| "write_at (Archived_request stamp k) f b =
     b\<lparr>history := in_dir stamp (\<lambda>d. d\<lparr>hreq := AList.update k f (hreq d)\<rparr>) (history b)\<rparr>"
| "write_at (Archived_response stamp k) f b =
     b\<lparr>history := in_dir stamp (\<lambda>d. d\<lparr>hresp := AList.update k f (hresp d)\<rparr>) (history b)\<rparr>"
| "write_at A_directory f b = b"
| "write_at No_entry f b = b"
| "write_at Unheld f b = b"
| "write_at Outside f b = b"

subsection \<open>The operation\<close>

text \<open>
  The ISO time stamp of the response is \<open>datetime.now\<close>, an argument of the model.
  The result is the returned text or the exception raised, with the bus as the call
  leaves it. \<open>req_path.exists()\<close> is true of a directory too, and \<open>open\<close> then raises.
  Opening the response path for writing raises when a directory on the way is missing.
\<close>

definition response_data :: "rid \<Rightarrow> jval \<Rightarrow> string \<Rightarrow> string \<Rightarrow> obj" where
  "response_data request_id question answer now_iso =
     [(''id'', JStr request_id),
      (''type'', JStr ''oracle_response''),
      (''question'', question),
      (''answer'', JStr answer),
      (''responder'', JStr ''oracle''),
      (''timestamp'', JStr now_iso)]"

definition respond_to_oracle_call :: "rid \<Rightarrow> string \<Rightarrow> string \<Rightarrow> bus \<Rightarrow> (error + string) \<times> bus" where
  "respond_to_oracle_call request_id answer now_iso b =
     (let req_path = locate b ''requests'' request_id
      in if req_path = Outside then (Inl Unmodelled, b)
         else if req_path = A_directory then (Inl IsADirectoryError, b)
         else
           (case content_at b req_path of
              None \<Rightarrow> (Inr (''No pending request found with ID: '' @ request_id), b)
            | Some f \<Rightarrow>
                (case andthen (json_load f)
                        (\<lambda>request_data. py_get request_data ''question'' (JStr '''')) of
                   Inl e \<Rightarrow> (Inl e, b)
                 | Inr q \<Rightarrow>
                     (let resp_path = locate b ''responses'' request_id
                      in if resp_path = Outside \<or> resp_path = Unheld then (Inl Unmodelled, b)
                         else if resp_path = A_directory then (Inl IsADirectoryError, b)
                         else if resp_path = No_entry then (Inl FileNotFoundError, b)
                         else
                           (Inr (''Response recorded for request '' @ request_id
                                   @ ''. The caller will receive it shortly.''),
                            write_at resp_path
                              (Json (Dict (response_data request_id q answer now_iso))) b)))))"

section \<open>Observations on the bus\<close>

text \<open>
  The ids with a file in an open partition, the ids with a file somewhere in the history,
  and, for one id, the request files and the response files the history holds under it,
  directory by directory.
\<close>

definition open_ids :: "bus \<Rightarrow> rid set" where
  "open_ids b = fst ` set (requests b) \<union> fst ` set (responses b)"

definition archived_ids :: "bus \<Rightarrow> rid set" where
  "archived_ids b = (\<Union>d \<in> snd ` set (history b). fst ` set (hreq d) \<union> fst ` set (hresp d))"

definition archived_requests :: "rid \<Rightarrow> bus \<Rightarrow> fcontent list" where
  "archived_requests request_id b =
     concat (map (\<lambda>(s, d). map snd (filter (\<lambda>(k, f). k = request_id) (hreq d))) (history b))"

definition archived_responses :: "rid \<Rightarrow> bus \<Rightarrow> fcontent list" where
  "archived_responses request_id b =
     concat (map (\<lambda>(s, d). map snd (filter (\<lambda>(k, f). k = request_id) (hresp d))) (history b))"

section \<open>\<open>oracle_call\<close>\<close>

text \<open>
  What the call takes from its environment is made an argument: the text of
  \<open>uuid.uuid4()\<close>, the ISO time stamp of the request, the reading of \<open>time.time()\<close> at
  \<open>start_time\<close>, and one \<open>tick\<close> for every evaluation of the loop test. A tick holds the
  reading of \<open>time.time()\<close> in that test (seconds, a rational number), the stamp
  \<open>_archive_exchange\<close> reads if it is called in that iteration, and what other tasks and
  processes do to the bus while the call is suspended in the \<open>asyncio.sleep\<close> that ends
  the iteration. The call has no other \<open>await\<close>. A tick list that runs out before the
  call returns gives \<open>None\<close>: the call has not returned yet.
\<close>

record tick =
  clock :: rat
  utc_stamp :: string
  meanwhile :: "bus \<Rightarrow> bus"

text \<open>A tick during whose sleep nothing else touches the bus.\<close>

definition idle_tick :: "rat \<Rightarrow> string \<Rightarrow> tick" where
  "idle_tick c s = \<lparr>clock = c, utc_stamp = s, meanwhile = (\<lambda>b. b)\<rparr>"

text \<open>\<open>poll_interval = 2.0\<close>, the seconds asked of each \<open>asyncio.sleep\<close>.\<close>

definition poll_interval :: rat where
  "poll_interval = 2"

text \<open>\<open>request_id = str(uuid.uuid4())[:8]\<close>.\<close>

definition new_request_id :: "string \<Rightarrow> rid" where
  "new_request_id uuid4 = take 8 uuid4"

text \<open>The dictionary \<open>request_data\<close> (the parameter \<open>context\<close> is \<open>ctx\<close> here).\<close>

definition request_data :: "rid \<Rightarrow> string \<Rightarrow> string \<Rightarrow> string \<Rightarrow> string \<Rightarrow> obj" where
  "request_data request_id question ctx urgency timestamp =
     [(''id'', JStr request_id),
      (''type'', JStr ''oracle_call''),
      (''from_level'', JInt 2),
      (''to_level'', JInt 3),
      (''question'', JStr question),
      (''context'', JStr ctx),
      (''urgency'', JStr urgency),
      (''timestamp'', JStr timestamp),
      (''status'', JStr ''pending'')]"

text \<open>The two texts the call returns: on a response, and on timeout.\<close>

definition response_text :: "json \<Rightarrow> error + string" where
  "response_text response =
     andthen (py_get response ''answer'' (JStr ''(no answer provided)'')) (\<lambda>answer.
     andthen (py_get response ''responder'' (JStr ''oracle'')) (\<lambda>responder.
     Inr (''Oracle response ('' @ py_str responder @ ''): '' @ py_str answer)))"

definition timeout_text :: "int \<Rightarrow> rid \<Rightarrow> string" where
  "timeout_text timeout_seconds request_id =
     ''Oracle call timed out after '' @ dec_int timeout_seconds
       @ ''s. The oracle did not respond. Request ID: '' @ request_id"

text \<open>
  The \<open>while\<close> loop and the timeout path after it. One tick is consumed by each
  evaluation of the loop test; a response that is \<open>None\<close> (no file, or a file holding
  \<open>null\<close>) sends the call to sleep. The exchange is archived before the fields of the
  response are read, so a response that is not an object raises after the archive.
\<close>

fun poll :: "rid \<Rightarrow> rat \<Rightarrow> int \<Rightarrow> obj \<Rightarrow> tick list \<Rightarrow> bus \<Rightarrow> ((error + string) \<times> bus) option" where
  "poll request_id start_time timeout_seconds data [] b = None"
| "poll request_id start_time timeout_seconds data (t # ts) b =
     (if clock t - start_time < of_int timeout_seconds then
        (case read_response request_id b of
           Inl e \<Rightarrow> Some (Inl e, b)
         | Inr Null \<Rightarrow> poll request_id start_time timeout_seconds data ts (meanwhile t b)
         | Inr response \<Rightarrow>
             Some (response_text response, archive_exchange (utc_stamp t) request_id b))
      else
        Some (Inr (timeout_text timeout_seconds request_id),
              archive_exchange (utc_stamp t) request_id
                (write_request request_id
                   (AList.update ''status'' (JStr ''timeout'') data) b)))"

definition oracle_call ::
  "string \<Rightarrow> string \<Rightarrow> string \<Rightarrow> int \<Rightarrow> string \<Rightarrow> string \<Rightarrow> rat \<Rightarrow> tick list \<Rightarrow> bus
     \<Rightarrow> ((error + string) \<times> bus) option" where
  "oracle_call question ctx urgency timeout_seconds uuid4 timestamp start_time ticks b =
     (let request_id = new_request_id uuid4;
          data = request_data request_id question ctx urgency timestamp
      in poll request_id start_time timeout_seconds data ticks
           (write_request request_id data b))"

subsection \<open>The calls the loop makes\<close>

text \<open>
  The loop again, this time for what it calls and in which order: \<open>Tested c\<close> is a loop
  test in which \<open>time.time()\<close> gave \<open>c\<close>, \<open>Polled\<close> a call of \<open>_read_response\<close>,
  \<open>Slept d\<close> an \<open>await asyncio.sleep(d)\<close>. The log ends where the call returns or raises,
  or where the ticks run out.
\<close>

datatype event = Tested rat | Polled | Slept rat

fun poll_events :: "rid \<Rightarrow> rat \<Rightarrow> int \<Rightarrow> tick list \<Rightarrow> bus \<Rightarrow> event list" where
  "poll_events request_id start_time timeout_seconds [] b = []"
| "poll_events request_id start_time timeout_seconds (t # ts) b =
     (if clock t - start_time < of_int timeout_seconds then
        (case read_response request_id b of
           Inl e \<Rightarrow> [Tested (clock t), Polled]
         | Inr Null \<Rightarrow>
             Tested (clock t) # Polled # Slept poll_interval
               # poll_events request_id start_time timeout_seconds ts (meanwhile t b)
         | Inr response \<Rightarrow> [Tested (clock t), Polled])
      else [Tested (clock t)])"

definition oracle_call_events ::
  "string \<Rightarrow> string \<Rightarrow> string \<Rightarrow> int \<Rightarrow> string \<Rightarrow> string \<Rightarrow> rat \<Rightarrow> tick list \<Rightarrow> bus
     \<Rightarrow> event list" where
  "oracle_call_events question ctx urgency timeout_seconds uuid4 timestamp start_time ticks b =
     (let request_id = new_request_id uuid4;
          data = request_data request_id question ctx urgency timestamp
      in poll_events request_id start_time timeout_seconds ticks
           (write_request request_id data b))"

subsection \<open>Describing a run of the loop\<close>

text \<open>
  \<open>after ts b\<close> is the bus after the sleeps of the ticks \<open>ts\<close>. \<open>unanswered\<close> says
  that every test of \<open>ts\<close> found the elapsed time below the timeout and every poll found
  no response. \<open>legible\<close> says that at every tick the response file of the id is absent,
  holds \<open>null\<close> or holds a JSON object.

  \<open>sleeps_kept c evs\<close> is what the clock and \<open>asyncio.sleep\<close> owe the call, read off
  its log: no reading is below \<open>c\<close>, the reading before it (the clock does not run
  backwards), and a reading that follows a sleep of \<open>d\<close> is at least \<open>d\<close> above the
  reading before the sleep (a sleep lasts at least as long as asked). \<open>poll_times\<close> are
  the readings of the loop tests that were followed by a poll, and \<open>spaced d xs\<close> says
  that each of \<open>xs\<close> is at least \<open>d\<close> above the one before it.
\<close>

fun after :: "tick list \<Rightarrow> bus \<Rightarrow> bus" where
  "after [] b = b"
| "after (t # ts) b = after ts (meanwhile t b)"

fun unanswered :: "rid \<Rightarrow> rat \<Rightarrow> int \<Rightarrow> tick list \<Rightarrow> bus \<Rightarrow> bool" where
  "unanswered request_id start_time timeout_seconds [] b = True"
| "unanswered request_id start_time timeout_seconds (t # ts) b =
     (clock t - start_time < of_int timeout_seconds
      \<and> read_response request_id b = Inr Null
      \<and> unanswered request_id start_time timeout_seconds ts (meanwhile t b))"

fun legible :: "rid \<Rightarrow> tick list \<Rightarrow> bus \<Rightarrow> bool" where
  "legible request_id [] b = True"
| "legible request_id (t # ts) b =
     ((case read_response request_id b of
         Inr Null \<Rightarrow> True
       | Inr (Dict r) \<Rightarrow> True
       | _ \<Rightarrow> False)
      \<and> legible request_id ts (meanwhile t b))"

fun sleeps_kept :: "rat \<Rightarrow> event list \<Rightarrow> bool" where
  "sleeps_kept c [] = True"
| "sleeps_kept c (Tested c' # evs) = (c \<le> c' \<and> sleeps_kept c' evs)"
| "sleeps_kept c (Polled # evs) = sleeps_kept c evs"
| "sleeps_kept c (Slept d # evs) = sleeps_kept (c + d) evs"

fun poll_times :: "event list \<Rightarrow> rat list" where
  "poll_times (Tested c # Polled # evs) = c # poll_times evs"
| "poll_times (e # evs) = poll_times evs"
| "poll_times [] = []"

fun spaced :: "rat \<Rightarrow> rat list \<Rightarrow> bool" where
  "spaced d (x # y # zs) = (x + d \<le> y \<and> spaced d (y # zs))"
| "spaced d xs = True"

section \<open>Listings\<close>

definition collect :: "('a \<Rightarrow> error + 'b) \<Rightarrow> 'a list \<Rightarrow> error + 'b list" where
  "collect f xs =
     foldr (\<lambda>x rest. andthen (f x) (\<lambda>y. andthen rest (\<lambda>ys. Inr (y # ys)))) xs (Inr [])"

fun join_nl :: "string list \<Rightarrow> string" where
  "join_nl [] = []"
| "join_nl [l] = l"
| "join_nl (l # ls) = l @ CHR 0x0A # join_nl ls"

text \<open>\<open>sorted(paths)\<close>: the paths of one directory, ordered by file name.\<close>

definition sorted_json :: "dir \<Rightarrow> dir" where
  "sorted_json d = sort_key (\<lambda>(k, f). k @ ''.json'') d"

definition fmt_get :: "json \<Rightarrow> string \<Rightarrow> string \<Rightarrow> error + string" where
  "fmt_get j k dflt = andthen (py_get j k (JStr dflt)) (\<lambda>v. Inr (py_str v))"

definition status_line :: "json \<Rightarrow> error + string" where
  "status_line req =
     andthen (fmt_get req ''id'' ''?'') (\<lambda>i.
     andthen (andthen (py_get req ''urgency'' (JStr ''normal'')) py_upper) (\<lambda>u.
     andthen (andthen (py_get req ''question'' (JStr ''?'')) (py_slice 60)) (\<lambda>q.
     Inr (''  ['' @ i @ ''] '' @ py_str u @ '': '' @ py_str q))))"

definition bus_status :: "string \<Rightarrow> bus \<Rightarrow> error + string" where
  "bus_status bus_dir b =
     (let pending_requests = requests b;
          pending_responses = responses b;
          history_entries = history b;
          status_lines =
            [''=== Ordinal Bus Status ==='',
             ''Bus directory: '' @ bus_dir,
             ''Pending requests: '' @ dec_nat (length pending_requests),
             ''Pending responses: '' @ dec_nat (length pending_responses),
             ''Historical exchanges: '' @ dec_nat (length history_entries),
             []]
      in if pending_requests \<noteq> [] then
           andthen (collect (\<lambda>(k, f). andthen (json_load f) status_line)
                      (sorted_json pending_requests)) (\<lambda>ls.
           Inr (join_nl (status_lines @ [''--- Pending Requests ---''] @ ls @ [[]])))
         else Inr (join_nl status_lines))"

definition pending_block :: "json \<Rightarrow> error + string list" where
  "pending_block req =
     andthen (fmt_get req ''id'' ''?'') (\<lambda>i.
     andthen (fmt_get req ''question'' ''?'') (\<lambda>q.
     andthen (fmt_get req ''context'' ''(none)'') (\<lambda>c.
     andthen (fmt_get req ''urgency'' ''normal'') (\<lambda>u.
     andthen (fmt_get req ''timestamp'' ''?'') (\<lambda>t.
     andthen (fmt_get req ''status'' ''pending'') (\<lambda>s.
     Inr [''Request ID: '' @ i,
          ''  Question: '' @ q,
          ''  Context: '' @ c,
          ''  Urgency: '' @ u,
          ''  Time: '' @ t,
          ''  Status: '' @ s,
          []]))))))"

definition list_pending_calls :: "bus \<Rightarrow> error + string" where
  "list_pending_calls b =
     (let pending = requests b
      in if pending = [] then Inr ''No pending oracle calls on the bus.''
         else andthen (collect (\<lambda>(k, f). andthen (json_load f) pending_block)
                         (sorted_json pending)) (\<lambda>blocks.
              Inr (join_nl ([''=== Pending Oracle Calls ==='', []] @ concat blocks))))"

text \<open>\<open>xs[:limit]\<close>: a negative limit counts from the end.\<close>

definition py_take :: "int \<Rightarrow> 'a list \<Rightarrow> 'a list" where
  "py_take limit xs =
     (if 0 \<le> limit then take (nat limit) xs else take (nat (int (length xs) + limit)) xs)"

definition history_request_lines :: "json \<Rightarrow> error + string list" where
  "history_request_lines req =
     andthen (fmt_get req ''id'' ''?'') (\<lambda>i.
     andthen (andthen (py_get req ''question'' (JStr ''?'')) (py_slice 80)) (\<lambda>q.
     andthen (fmt_get req ''urgency'' ''normal'') (\<lambda>u.
     andthen (fmt_get req ''status'' ''?'') (\<lambda>s.
     Inr [''['' @ i @ ''] Q: '' @ py_str q,
          ''  Urgency: '' @ u @ '' | Status: '' @ s]))))"

definition history_response_lines :: "json \<Rightarrow> error + string list" where
  "history_response_lines resp =
     andthen (andthen (py_get resp ''answer'' (JStr ''(no answer)'')) (py_slice 80)) (\<lambda>a.
     andthen (fmt_get resp ''responder'' ''?'') (\<lambda>r.
     Inr [''  A: '' @ py_str a,
          ''  Responder: '' @ r]))"

definition history_block :: "string \<times> hdir \<Rightarrow> error + string list" where
  "history_block e =
     (case e of (name, hist_dir) \<Rightarrow>
        andthen (collect (\<lambda>(k, f). andthen (json_load f) history_request_lines)
                   (hreq hist_dir)) (\<lambda>qs.
        andthen (collect (\<lambda>(k, f). andthen (json_load f) history_response_lines)
                   (hresp hist_dir)) (\<lambda>as.
        Inr (concat qs @ concat as @ [''  Archived: '' @ name, []]))))"

text \<open>
  \<open>sorted(HISTORY_DIR.iterdir(), reverse=True)[:limit]\<close>: the entries of one directory
  have different names, so the descending order is the reverse of the ascending one. The
  history directory holds directories only (the operations create nothing else there).
\<close>

definition bus_history :: "int \<Rightarrow> bus \<Rightarrow> error + string" where
  "bus_history limit b =
     (let history_dirs = py_take limit (rev (sort_key fst (history b)))
      in if history_dirs = [] then Inr ''No history on the bus yet.''
         else andthen (collect history_block history_dirs) (\<lambda>blocks.
              Inr (join_nl ([''=== Ordinal Bus History ==='', []] @ concat blocks))))"

subsection \<open>Records the listings can print\<close>

text \<open>
  A request file the listings print without an exception: a JSON object whose urgency
  and question, where present, are text (\<open>bus_status\<close> upper-cases the one and slices
  the other). A response file likewise: an object whose answer, where present, is text.
  \<open>readable\<close> says so of every open request and of every record in the history.
\<close>

definition text_field :: "obj \<Rightarrow> string \<Rightarrow> bool" where
  "text_field d k = (case map_of d k of None \<Rightarrow> True | Some (JStr s) \<Rightarrow> True | Some _ \<Rightarrow> False)"

definition request_ok :: "fcontent \<Rightarrow> bool" where
  "request_ok f =
     (case f of Json (Dict d) \<Rightarrow> text_field d ''urgency'' \<and> text_field d ''question'' | _ \<Rightarrow> False)"

definition response_ok :: "fcontent \<Rightarrow> bool" where
  "response_ok f = (case f of Json (Dict d) \<Rightarrow> text_field d ''answer'' | _ \<Rightarrow> False)"

definition readable :: "bus \<Rightarrow> bool" where
  "readable b =
     (list_all (\<lambda>(k, f). request_ok f) (requests b)
      \<and> list_all (\<lambda>(s, d). list_all (\<lambda>(k, f). request_ok f) (hreq d)
                           \<and> list_all (\<lambda>(k, f). response_ok f) (hresp d)) (history b))"

section \<open>Interleavings of the operations\<close>

text \<open>
  The states the operations reach when each piece of an operation that runs without
  suspension is one step: a call is issued (its request written, under an id that is
  neither open nor archived), a response is recorded, a waiting call finds a response
  and archives, a waiting call times out, rewrites its request and archives. The
  listings change nothing. \<open>waiting\<close> holds the ids of the calls still in their loop.
\<close>

record sys =
  store :: bus
  waiting :: "rid set"

definition init_sys :: sys where
  "init_sys = \<lparr>store = empty_bus, waiting = {}\<rparr>"

inductive reachable :: "sys \<Rightarrow> bool" where
  init: "reachable init_sys"
| issue:
    "reachable s \<Longrightarrow> request_id \<notin> open_ids (store s) \<union> archived_ids (store s) \<Longrightarrow>
     reachable \<lparr>store = write_request request_id data (store s),
                waiting = insert request_id (waiting s)\<rparr>"
| respond:
    "reachable s \<Longrightarrow>
     reachable \<lparr>store = snd (respond_to_oracle_call request_id answer now_iso (store s)),
                waiting = waiting s\<rparr>"
| answered:
    "reachable s \<Longrightarrow> request_id \<in> waiting s \<Longrightarrow>
     read_response request_id (store s) = Inr response \<Longrightarrow> response \<noteq> Null \<Longrightarrow>
     reachable \<lparr>store = archive_exchange stamp request_id (store s),
                waiting = waiting s - {request_id}\<rparr>"
| timed_out:
    "reachable s \<Longrightarrow> request_id \<in> waiting s \<Longrightarrow>
     reachable \<lparr>store = archive_exchange stamp request_id
                          (write_request request_id data (store s)),
                waiting = waiting s - {request_id}\<rparr>"

section \<open>Facts about the store operations\<close>

lemma map_fst_in_dir: "map fst (in_dir stamp f hs) = map fst hs"
  by (induction hs) auto

lemma keys_in_dir: "fst ` set (in_dir stamp f hs) = fst ` set hs"
  using map_fst_in_dir [of stamp f hs] by (metis list.set_map)

lemma requests_mk_archive_dir: "requests (mk_archive_dir stamp b) = requests b"
  by (simp add: mk_archive_dir_def)

lemma responses_mk_archive_dir: "responses (mk_archive_dir stamp b) = responses b"
  by (simp add: mk_archive_dir_def)

lemma stamp_in_mk_archive_dir: "stamp \<in> fst ` set (history (mk_archive_dir stamp b))"
  by (simp add: mk_archive_dir_def)

lemma requests_move_request:
  "requests (move_request stamp request_id b) = AList.delete request_id (requests b)"
  by (simp add: move_request_def map_of_eq_None_iff split: option.splits)

lemma responses_move_request: "responses (move_request stamp request_id b) = responses b"
  by (simp add: move_request_def split: option.splits)

lemma requests_move_response: "requests (move_response stamp request_id b) = requests b"
  by (simp add: move_response_def split: option.splits)

lemma responses_move_response:
  "responses (move_response stamp request_id b) = AList.delete request_id (responses b)"
  by (simp add: move_response_def map_of_eq_None_iff split: option.splits)

lemma keys_history_move_request:
  "fst ` set (history (move_request stamp request_id b)) = fst ` set (history b)"
  by (simp add: move_request_def keys_in_dir split: option.splits)

lemma keys_history_move_response:
  "fst ` set (history (move_response stamp request_id b)) = fst ` set (history b)"
  by (simp add: move_response_def keys_in_dir split: option.splits)

lemma requests_archive_exchange:
  "requests (archive_exchange stamp request_id b) = AList.delete request_id (requests b)"
  by (simp add: archive_exchange_def requests_move_response requests_move_request
      requests_mk_archive_dir)

lemma responses_archive_exchange:
  "responses (archive_exchange stamp request_id b) = AList.delete request_id (responses b)"
  by (simp add: archive_exchange_def responses_move_response responses_move_request
      responses_mk_archive_dir)

lemma stamp_in_archive_exchange:
  "stamp \<in> fst ` set (history (archive_exchange stamp request_id b))"
  by (simp add: archive_exchange_def keys_history_move_response keys_history_move_request
      stamp_in_mk_archive_dir)

lemma map_of_delete_same: "map_of (AList.delete k al) k = None"
  by (simp add: delete_conv')

lemma archive_exchange_nothing:
  assumes "map_of (requests b) request_id = None" and "map_of (responses b) request_id = None"
  shows "archive_exchange stamp request_id b = mk_archive_dir stamp b"
  using assms
  by (simp add: archive_exchange_def move_request_def move_response_def
      requests_mk_archive_dir responses_mk_archive_dir)

lemma mk_archive_dir_present:
  "stamp \<in> fst ` set (history b) \<Longrightarrow> mk_archive_dir stamp b = b"
  by (simp add: mk_archive_dir_def)

lemma open_ids_archive_exchange:
  "open_ids (archive_exchange stamp request_id b) = open_ids b - {request_id}"
proof -
  have "fst ` set (AList.delete request_id al) = fst ` set al - {request_id}" for al :: dir
    using delete_keys [of request_id al] by (metis list.set_map set_removeAll)
  then show ?thesis
    by (auto simp: open_ids_def requests_archive_exchange responses_archive_exchange)
qed

lemma split_on_absent: "c \<notin> set s \<Longrightarrow> split_on c s = [s]"
  by (induction s) auto

lemma locate_plain:
  assumes "CHR ''/'' \<notin> set request_id"
  shows "locate b ''requests'' request_id = Request_file request_id"
    and "locate b ''responses'' request_id = Response_file request_id"
proof -
  from assms have "take 1 request_id \<noteq> ''/''"
    by (cases request_id) auto
  with assms show "locate b ''requests'' request_id = Request_file request_id"
    and "locate b ''responses'' request_id = Response_file request_id"
    by (simp_all add: locate_def split_on_absent file_in_def)
qed

lemma respond_plain:
  assumes "CHR ''/'' \<notin> set request_id"
  shows "respond_to_oracle_call request_id answer now_iso b =
     (case map_of (requests b) request_id of
        None \<Rightarrow> (Inr (''No pending request found with ID: '' @ request_id), b)
      | Some f \<Rightarrow>
          (case andthen (json_load f) (\<lambda>request_data. py_get request_data ''question'' (JStr '''')) of
             Inl e \<Rightarrow> (Inl e, b)
           | Inr q \<Rightarrow>
               (Inr (''Response recorded for request '' @ request_id
                       @ ''. The caller will receive it shortly.''),
                b\<lparr>responses :=
                    AList.update request_id (Json (Dict (response_data request_id q answer now_iso)))
                      (responses b)\<rparr>)))"
  by (simp add: respond_to_oracle_call_def locate_plain [OF assms] Let_def
      split: option.splits sum.splits)

lemma walk_from_partition:
  assumes "walk b [''requests''] dirs = At d"
  shows "dirs = [] \<or> walk b [''responses''] dirs = At d"
proof (cases dirs)
  case Nil
  then show ?thesis by simp
next
  case (Cons c cs)
  show ?thesis
  proof (cases "c = ''..''")
    case True
    with assms Cons show ?thesis by simp
  next
    case False
    then have "\<not> is_dir b [''requests'', c]"
      by (simp add: is_dir_def)
    with assms Cons False show ?thesis by simp
  qed
qed

lemma locate_pair:
  assumes "content_at b (locate b ''requests'' request_id) = Some f"
  shows "locate b ''responses'' request_id = locate b ''requests'' request_id
       \<or> (\<exists>k. locate b ''requests'' request_id = Request_file k
               \<and> locate b ''responses'' request_id = Response_file k)"
proof -
  let ?segments = "split_on CHR ''/'' request_id"
  let ?dirs = "filter (\<lambda>p. p \<noteq> [] \<and> p \<noteq> ''.'') (butlast ?segments)"
  from assms have rel: "take 1 request_id \<noteq> ''/''"
    by (auto simp: locate_def)
  from assms rel obtain d where d: "walk b [''requests''] ?dirs = At d"
    by (cases "walk b [''requests''] ?dirs") (auto simp: locate_def Let_def)
  from walk_from_partition [OF d] show ?thesis
  proof
    assume "?dirs = []"
    with rel show ?thesis
      by (simp add: locate_def Let_def file_in_def)
  next
    assume "walk b [''responses''] ?dirs = At d"
    with d rel show ?thesis
      by (simp add: locate_def Let_def)
  qed
qed

lemma keys_update_present:
  "map_of al k = Some v \<Longrightarrow> fst ` set (AList.update k w al) = fst ` set al"
  by (auto simp: dom_update dest: map_of_SomeD intro: rev_image_eqI)

lemma in_dir_same_keys:
  assumes "map_of hs stamp = Some d" and "G (g d) = G d"
  shows "(\<Union>x \<in> snd ` set (in_dir stamp g hs). G x) = (\<Union>x \<in> snd ` set hs. G x)"
  using assms
proof (induction hs)
  case Nil
  then show ?case by simp
next
  case (Cons p hs)
  obtain s d0 where p: "p = (s, d0)" by (cases p)
  show ?case
  proof (cases "s = stamp")
    case True
    with Cons.prems p show ?thesis by simp
  next
    case False
    with Cons p show ?thesis by simp
  qed
qed

lemma write_at_present:
  assumes "content_at b p = Some f"
  shows "open_ids (write_at p g b) = open_ids b" and "archived_ids (write_at p g b) = archived_ids b"
proof -
  show "open_ids (write_at p g b) = open_ids b"
    using assms by (cases p) (auto simp: open_ids_def keys_update_present)
  show "archived_ids (write_at p g b) = archived_ids b"
  proof (cases p)
    case (Archived_request stamp k)
    with assms obtain d where d: "map_of (history b) stamp = Some d" "map_of (hreq d) k = Some f"
      by (auto split: option.splits)
    have "(\<Union>x \<in> snd ` set (in_dir stamp (\<lambda>d. d\<lparr>hreq := AList.update k g (hreq d)\<rparr>) (history b)).
            fst ` set (hreq x) \<union> fst ` set (hresp x))
        = (\<Union>x \<in> snd ` set (history b). fst ` set (hreq x) \<union> fst ` set (hresp x))"
      by (rule in_dir_same_keys [OF d(1)]) (simp add: keys_update_present [OF d(2)])
    with Archived_request show ?thesis by (simp add: archived_ids_def)
  next
    case (Archived_response stamp k)
    with assms obtain d where d: "map_of (history b) stamp = Some d" "map_of (hresp d) k = Some f"
      by (auto split: option.splits)
    have "(\<Union>x \<in> snd ` set (in_dir stamp (\<lambda>d. d\<lparr>hresp := AList.update k g (hresp d)\<rparr>) (history b)).
            fst ` set (hreq x) \<union> fst ` set (hresp x))
        = (\<Union>x \<in> snd ` set (history b). fst ` set (hreq x) \<union> fst ` set (hresp x))"
      by (rule in_dir_same_keys [OF d(1)]) (simp add: keys_update_present [OF d(2)])
    with Archived_response show ?thesis by (simp add: archived_ids_def)
  qed (simp_all add: archived_ids_def)
qed

lemma respond_found:
  assumes "CHR ''/'' \<notin> set request_id"
    and "map_of (requests b) request_id = Some (Json (Dict r))"
  shows "respond_to_oracle_call request_id answer now_iso b =
           (Inr (''Response recorded for request '' @ request_id
                   @ ''. The caller will receive it shortly.''),
            b\<lparr>responses :=
                AList.update request_id
                  (Json (Dict (response_data request_id
                     (case map_of r ''question'' of None \<Rightarrow> JStr [] | Some v \<Rightarrow> v) answer now_iso)))
                  (responses b)\<rparr>)"
  using assms
  by (simp add: respond_plain andthen_def json_load_def py_get_def)

lemma archived_requests_mk_archive_dir:
  "archived_requests x (mk_archive_dir stamp b) = archived_requests x b"
  by (simp add: archived_requests_def mk_archive_dir_def empty_hdir_def)

lemma archived_responses_mk_archive_dir:
  "archived_responses x (mk_archive_dir stamp b) = archived_responses x b"
  by (simp add: archived_responses_def mk_archive_dir_def empty_hdir_def)

lemma archive_exchange_again:
  "archive_exchange stamp2 request_id (archive_exchange stamp1 request_id b) =
     mk_archive_dir stamp2 (archive_exchange stamp1 request_id b)"
  by (rule archive_exchange_nothing)
     (simp_all add: requests_archive_exchange responses_archive_exchange map_of_delete_same)

lemma filter_key_absent:
  "k \<notin> fst ` set al \<Longrightarrow> filter (\<lambda>(k', f). k' = k) al = []"
  by (induction al) auto

lemma filter_key_empty_iff:
  "filter (\<lambda>(k', f). k' = k) al = [] \<longleftrightarrow> k \<notin> fst ` set al"
  by (induction al) auto

lemma filter_key_update_fresh:
  "k \<notin> fst ` set al \<Longrightarrow> filter (\<lambda>(k', f). k' = k) (AList.update k v al) = [(k, v)]"
  by (induction al) auto

lemma archived_requests_empty_iff:
  "archived_requests x b = [] \<longleftrightarrow> (\<forall>d \<in> snd ` set (history b). x \<notin> fst ` set (hreq d))"
  by (simp add: archived_requests_def filter_key_empty_iff case_prod_beta)

lemma archived_responses_empty_iff:
  "archived_responses x b = [] \<longleftrightarrow> (\<forall>d \<in> snd ` set (history b). x \<notin> fst ` set (hresp d))"
  by (simp add: archived_responses_def filter_key_empty_iff case_prod_beta)

lemma not_archived_iff:
  "x \<notin> archived_ids b \<longleftrightarrow> archived_requests x b = [] \<and> archived_responses x b = []"
  by (simp add: archived_ids_def archived_requests_empty_iff archived_responses_empty_iff) blast

lemma in_dir_hreq_fresh:
  assumes "stamp \<in> fst ` set hs" and "\<forall>d \<in> snd ` set hs. x \<notin> fst ` set (hreq d)"
  shows "concat (map (\<lambda>(s, d). map snd (filter (\<lambda>(k, f). k = x) (hreq d)))
           (in_dir stamp (\<lambda>d. d\<lparr>hreq := AList.update x v (hreq d)\<rparr>) hs)) = [v]"
  using assms
proof (induction hs)
  case Nil
  then show ?case by simp
next
  case (Cons p hs)
  obtain s d where p: "p = (s, d)" by (cases p)
  have rest: "concat (map (\<lambda>(s, d). map snd (filter (\<lambda>(k, f). k = x) (hreq d))) hs) = []"
    using Cons.prems(2) by (simp add: filter_key_empty_iff case_prod_beta)
  show ?case
  proof (cases "s = stamp")
    case True
    with Cons.prems(2) rest show ?thesis
      by (simp add: p filter_key_update_fresh)
  next
    case False
    with Cons show ?thesis
      by (simp add: p filter_key_absent)
  qed
qed

lemma in_dir_hresp_fresh:
  assumes "stamp \<in> fst ` set hs" and "\<forall>d \<in> snd ` set hs. x \<notin> fst ` set (hresp d)"
  shows "concat (map (\<lambda>(s, d). map snd (filter (\<lambda>(k, f). k = x) (hresp d)))
           (in_dir stamp (\<lambda>d. d\<lparr>hresp := AList.update x v (hresp d)\<rparr>) hs)) = [v]"
  using assms
proof (induction hs)
  case Nil
  then show ?case by simp
next
  case (Cons p hs)
  obtain s d where p: "p = (s, d)" by (cases p)
  have rest: "concat (map (\<lambda>(s, d). map snd (filter (\<lambda>(k, f). k = x) (hresp d))) hs) = []"
    using Cons.prems(2) by (simp add: filter_key_empty_iff case_prod_beta)
  show ?case
  proof (cases "s = stamp")
    case True
    with Cons.prems(2) rest show ?thesis
      by (simp add: p filter_key_update_fresh)
  next
    case False
    with Cons show ?thesis
      by (simp add: p filter_key_absent)
  qed
qed

lemma in_dir_keeps_hreq:
  assumes "\<And>d. hreq (g d) = hreq d"
  shows "map (\<lambda>(s, d). F (hreq d)) (in_dir stamp g hs) = map (\<lambda>(s, d). F (hreq d)) hs"
  using assms by (induction hs) auto

lemma in_dir_keeps_hresp:
  assumes "\<And>d. hresp (g d) = hresp d"
  shows "map (\<lambda>(s, d). F (hresp d)) (in_dir stamp g hs) = map (\<lambda>(s, d). F (hresp d)) hs"
  using assms by (induction hs) auto

lemma archived_requests_move_response:
  "archived_requests x (move_response stamp request_id b) = archived_requests x b"
  by (simp add: archived_requests_def move_response_def
      in_dir_keeps_hreq [where F = "\<lambda>h. map snd (filter (\<lambda>(k, f). k = x) h)"]
      split: option.splits)

lemma archived_responses_move_request:
  "archived_responses x (move_request stamp request_id b) = archived_responses x b"
  by (simp add: archived_responses_def move_request_def
      in_dir_keeps_hresp [where F = "\<lambda>h. map snd (filter (\<lambda>(k, f). k = x) h)"]
      split: option.splits)

lemma archived_requests_move_request:
  assumes "map_of (requests b) request_id = Some f" and "stamp \<in> fst ` set (history b)"
    and "archived_requests request_id b = []"
  shows "archived_requests request_id (move_request stamp request_id b) = [f]"
  using assms
  by (simp add: archived_requests_empty_iff)
     (simp add: archived_requests_def move_request_def in_dir_hreq_fresh)

lemma archived_responses_move_response:
  assumes "map_of (responses b) request_id = Some f" and "stamp \<in> fst ` set (history b)"
    and "archived_responses request_id b = []"
  shows "archived_responses request_id (move_response stamp request_id b) = [f]"
  using assms
  by (simp add: archived_responses_empty_iff)
     (simp add: archived_responses_def move_response_def in_dir_hresp_fresh)

lemma archived_requests_archive_exchange:
  assumes "map_of (requests b) request_id = Some f" and "archived_requests request_id b = []"
  shows "archived_requests request_id (archive_exchange stamp request_id b) = [f]"
  using assms
  by (simp add: archive_exchange_def archived_requests_move_response
      archived_requests_move_request requests_mk_archive_dir stamp_in_mk_archive_dir
      archived_requests_mk_archive_dir)

lemma archived_responses_archive_exchange:
  assumes "map_of (responses b) request_id = Some f" and "archived_responses request_id b = []"
  shows "archived_responses request_id (archive_exchange stamp request_id b) = [f]"
  using assms
  by (simp add: archive_exchange_def archived_responses_move_response
      archived_responses_move_request responses_move_request responses_mk_archive_dir
      keys_history_move_request stamp_in_mk_archive_dir archived_responses_mk_archive_dir)

lemma not_open_archive_exchange: "request_id \<notin> open_ids (archive_exchange stamp request_id b)"
  by (simp add: open_ids_archive_exchange)

lemma map_of_write_request:
  "map_of (requests (write_request request_id data b)) request_id = Some (Json (Dict data))"
  by (simp add: write_request_def update_conv')

lemma archived_write_request:
  "archived_requests x (write_request request_id data b) = archived_requests x b"
  "archived_responses x (write_request request_id data b) = archived_responses x b"
  "archived_ids (write_request request_id data b) = archived_ids b"
  by (simp_all add: archived_requests_def archived_responses_def archived_ids_def write_request_def)

lemma write_request_twice:
  "write_request request_id data2 (write_request request_id data1 b) =
     write_request request_id data2 b"
  by (simp add: write_request_def)

lemma poll_unanswered:
  "unanswered request_id start_time timeout_seconds pre b \<Longrightarrow>
   poll request_id start_time timeout_seconds data (pre @ ts) b =
     poll request_id start_time timeout_seconds data ts (after pre b)"
  by (induction pre arbitrary: b) auto

lemma poll_timed_out:
  "\<not> clock t - start_time < of_int timeout_seconds \<Longrightarrow>
   poll request_id start_time timeout_seconds data (t # ts) b =
     Some (Inr (timeout_text timeout_seconds request_id),
           archive_exchange (utc_stamp t) request_id
             (write_request request_id (AList.update ''status'' (JStr ''timeout'') data) b))"
  by simp

lemma poll_answered:
  "clock t - start_time < of_int timeout_seconds \<Longrightarrow>
   map_of (responses b) request_id = Some (Json (Dict r)) \<Longrightarrow>
   poll request_id start_time timeout_seconds data (t # ts) b =
     Some (response_text (Dict r), archive_exchange (utc_stamp t) request_id b)"
  by (simp add: read_response_def json_load_def)

lemma response_text_Dict:
  "response_text (Dict r) =
     Inr (''Oracle response (''
            @ py_str (case map_of r ''responder'' of None \<Rightarrow> JStr ''oracle'' | Some v \<Rightarrow> v)
            @ ''): ''
            @ py_str (case map_of r ''answer'' of None \<Rightarrow> JStr ''(no answer provided)'' | Some v \<Rightarrow> v))"
  by (simp add: response_text_def andthen_def py_get_def)

lemma poll_more_ticks:
  "poll request_id start_time timeout_seconds data ticks b = Some r \<Longrightarrow>
   poll request_id start_time timeout_seconds data (ticks @ later) b = Some r"
proof (induction ticks arbitrary: b)
  case Nil
  then show ?case by simp
next
  case (Cons t ticks)
  then show ?case
    by (auto split: if_splits sum.splits json.splits)
qed

lemma sleeps_cover_timeout:
  "of_int timeout_seconds \<le> poll_interval * of_nat (nat \<lceil>of_int timeout_seconds / poll_interval\<rceil>)"
proof -
  have "of_int timeout_seconds / 2 \<le> (of_int \<lceil>of_int timeout_seconds / (2::rat)\<rceil> :: rat)"
    by (rule le_of_int_ceiling)
  also have "\<dots> \<le> of_nat (nat \<lceil>of_int timeout_seconds / (2::rat)\<rceil>)"
    by (metis of_nat_nat nat_le_iff of_int_le_iff of_int_of_nat_eq le_cases nat_0_iff of_nat_0 of_int_0_le_iff  order_refl)
  finally show ?thesis
    by (simp add: poll_interval_def)
qed

lemma sleeps_below_timeout_plus_interval:
  assumes "0 \<le> timeout_seconds"
  shows "poll_interval * of_nat (nat \<lceil>of_int timeout_seconds / poll_interval\<rceil>)
           < of_int timeout_seconds + poll_interval"
proof -
  have nonneg: "0 \<le> \<lceil>of_int timeout_seconds / (2::rat)\<rceil>"
    using assms by (simp add: ceiling_le_iff le_ceiling_iff)
  have "(of_int \<lceil>of_int timeout_seconds / (2::rat)\<rceil> :: rat) < of_int timeout_seconds / 2 + 1"
    using ceiling_correct [of "of_int timeout_seconds / (2::rat)"] by simp
  with nonneg show ?thesis
    by (simp add: poll_interval_def)
qed

lemma andthen_simps:
  "andthen (Inr x) f = f x"
  "andthen (Inl e) f = Inl e"
  by (simp_all add: andthen_def)

lemma collect_ok:
  "(\<And>x. x \<in> set xs \<Longrightarrow> \<exists>y. f x = Inr y) \<Longrightarrow> \<exists>ys. collect f xs = Inr ys"
proof (induction xs)
  case Nil
  then show ?case by (simp add: collect_def)
next
  case (Cons x xs)
  then obtain y where "f x = Inr y" by auto
  moreover from Cons obtain ys where "collect f xs = Inr ys" by auto
  ultimately show ?case
    by (simp add: collect_def andthen_def)
qed

lemma collect_raises:
  "x \<in> set xs \<Longrightarrow> f x = Inl e \<Longrightarrow> \<exists>e'. collect f xs = Inl e'"
proof (induction xs)
  case Nil
  then show ?case by simp
next
  case (Cons a xs)
  show ?case
  proof (cases "f a")
    case (Inl e0)
    then show ?thesis by (simp add: collect_def andthen_def)
  next
    case (Inr y)
    with Cons obtain e' where "collect f xs = Inl e'" by auto
    with Inr show ?thesis by (simp add: collect_def andthen_def)
  qed
qed

lemma fmt_get_Dict: "\<exists>s. fmt_get (Dict d) k dflt = Inr s"
  by (simp add: fmt_get_def py_get_def andthen_def)

lemma sliced_text:
  "text_field d k \<Longrightarrow> \<exists>v. andthen (py_get (Dict d) k (JStr dflt)) (py_slice n) = Inr v"
  by (auto simp: text_field_def py_get_def andthen_def split: option.splits jval.splits)

lemma upper_text:
  "text_field d k \<Longrightarrow> \<exists>v. andthen (py_get (Dict d) k (JStr dflt)) py_upper = Inr v"
  by (auto simp: text_field_def py_get_def andthen_def split: option.splits jval.splits)

lemma pending_block_ok: "\<exists>ls. pending_block (Dict d) = Inr ls"
  by (simp add: pending_block_def fmt_get_def py_get_def andthen_def)

lemma status_line_ok:
  assumes "text_field d ''urgency''" and "text_field d ''question''"
  shows "\<exists>l. status_line (Dict d) = Inr l"
proof -
  from upper_text [OF assms(1), of "''normal''"] obtain u
    where u: "andthen (py_get (Dict d) ''urgency'' (JStr ''normal'')) py_upper = Inr u" by blast
  from sliced_text [OF assms(2), of "''?''" 60] obtain q
    where q: "andthen (py_get (Dict d) ''question'' (JStr ''?'')) (py_slice 60) = Inr q" by blast
  from fmt_get_Dict [of d "''id''" "''?''"] obtain i
    where i: "fmt_get (Dict d) ''id'' ''?'' = Inr i" by blast
  show ?thesis
    by (simp add: status_line_def u q i andthen_simps)
qed

lemma history_request_lines_ok:
  assumes "text_field d ''question''"
  shows "\<exists>ls. history_request_lines (Dict d) = Inr ls"
proof -
  from sliced_text [OF assms, of "''?''" 80] obtain q
    where q: "andthen (py_get (Dict d) ''question'' (JStr ''?'')) (py_slice 80) = Inr q" by blast
  from fmt_get_Dict [of d "''id''" "''?''"] obtain i
    where i: "fmt_get (Dict d) ''id'' ''?'' = Inr i" by blast
  from fmt_get_Dict [of d "''urgency''" "''normal''"] obtain u
    where u: "fmt_get (Dict d) ''urgency'' ''normal'' = Inr u" by blast
  from fmt_get_Dict [of d "''status''" "''?''"] obtain s
    where s: "fmt_get (Dict d) ''status'' ''?'' = Inr s" by blast
  show ?thesis
    by (simp add: history_request_lines_def u q i s andthen_simps)
qed

lemma history_response_lines_ok:
  assumes "text_field d ''answer''"
  shows "\<exists>ls. history_response_lines (Dict d) = Inr ls"
proof -
  from sliced_text [OF assms, of "''(no answer)''" 80] obtain a
    where a: "andthen (py_get (Dict d) ''answer'' (JStr ''(no answer)'')) (py_slice 80) = Inr a"
    by blast
  from fmt_get_Dict [of d "''responder''" "''?''"] obtain r
    where r: "fmt_get (Dict d) ''responder'' ''?'' = Inr r" by blast
  show ?thesis
    by (simp add: history_response_lines_def a r andthen_simps)
qed

lemma request_okD:
  "request_ok f \<Longrightarrow> \<exists>d. f = Json (Dict d) \<and> text_field d ''urgency'' \<and> text_field d ''question''"
  by (auto simp: request_ok_def split: fcontent.splits json.splits)

lemma response_okD:
  "response_ok f \<Longrightarrow> \<exists>d. f = Json (Dict d) \<and> text_field d ''answer''"
  by (auto simp: response_ok_def split: fcontent.splits json.splits)

lemma list_pending_calls_ok:
  assumes "list_all (\<lambda>(k, f). request_ok f) (requests b)"
  shows "\<exists>s. list_pending_calls b = Inr s"
proof -
  have "\<exists>ys. collect (\<lambda>(k, f). andthen (json_load f) pending_block) (sorted_json (requests b)) = Inr ys"
  proof (rule collect_ok)
    fix x assume "x \<in> set (sorted_json (requests b))"
    then have "x \<in> set (requests b)" by (simp add: sorted_json_def)
    with assms have "request_ok (snd x)" by (auto simp: list_all_iff)
    then obtain d where "snd x = Json (Dict d)" by (auto dest: request_okD)
    with pending_block_ok [of d]
    show "\<exists>y. (case x of (k, f) \<Rightarrow> andthen (json_load f) pending_block) = Inr y"
      by (cases x) (auto simp: json_load_def andthen_def)
  qed
  then show ?thesis
    by (auto simp: list_pending_calls_def Let_def andthen_def)
qed

lemma bus_status_ok:
  assumes "list_all (\<lambda>(k, f). request_ok f) (requests b)"
  shows "\<exists>s. bus_status bus_dir b = Inr s"
proof -
  have "\<exists>ys. collect (\<lambda>(k, f). andthen (json_load f) status_line) (sorted_json (requests b)) = Inr ys"
  proof (rule collect_ok)
    fix x assume "x \<in> set (sorted_json (requests b))"
    then have "x \<in> set (requests b)" by (simp add: sorted_json_def)
    with assms have "request_ok (snd x)" by (auto simp: list_all_iff)
    then obtain d where "snd x = Json (Dict d)" "text_field d ''urgency''" "text_field d ''question''"
      by (auto dest: request_okD)
    with status_line_ok [of d]
    show "\<exists>y. (case x of (k, f) \<Rightarrow> andthen (json_load f) status_line) = Inr y"
      by (cases x) (auto simp: json_load_def andthen_def)
  qed
  then show ?thesis
    by (auto simp: bus_status_def Let_def andthen_def)
qed

lemma history_block_ok:
  assumes "list_all (\<lambda>(k, f). request_ok f) (hreq d)" and "list_all (\<lambda>(k, f). response_ok f) (hresp d)"
  shows "\<exists>ls. history_block (name, d) = Inr ls"
proof -
  have "\<exists>qs. collect (\<lambda>(k, f). andthen (json_load f) history_request_lines) (hreq d) = Inr qs"
  proof (rule collect_ok)
    fix x assume "x \<in> set (hreq d)"
    with assms(1) have "request_ok (snd x)" by (auto simp: list_all_iff)
    then obtain r where "snd x = Json (Dict r)" "text_field r ''question''"
      by (auto dest: request_okD)
    with history_request_lines_ok [of r]
    show "\<exists>y. (case x of (k, f) \<Rightarrow> andthen (json_load f) history_request_lines) = Inr y"
      by (cases x) (auto simp: json_load_def andthen_def)
  qed
  moreover
  have "\<exists>as. collect (\<lambda>(k, f). andthen (json_load f) history_response_lines) (hresp d) = Inr as"
  proof (rule collect_ok)
    fix x assume "x \<in> set (hresp d)"
    with assms(2) have "response_ok (snd x)" by (auto simp: list_all_iff)
    then obtain r where "snd x = Json (Dict r)" "text_field r ''answer''"
      by (auto dest: response_okD)
    with history_response_lines_ok [of r]
    show "\<exists>y. (case x of (k, f) \<Rightarrow> andthen (json_load f) history_response_lines) = Inr y"
      by (cases x) (auto simp: json_load_def andthen_def)
  qed
  ultimately show ?thesis
    by (auto simp: history_block_def andthen_def)
qed

lemma set_py_take: "set (py_take limit xs) \<subseteq> set xs"
  by (auto simp: py_take_def dest: in_set_takeD)

lemma bus_history_ok:
  assumes "list_all (\<lambda>(s, d). list_all (\<lambda>(k, f). request_ok f) (hreq d)
                           \<and> list_all (\<lambda>(k, f). response_ok f) (hresp d)) (history b)"
  shows "\<exists>s. bus_history limit b = Inr s"
proof -
  have "\<exists>ys. collect history_block (py_take limit (rev (sort_key fst (history b)))) = Inr ys"
  proof (rule collect_ok)
    fix x assume "x \<in> set (py_take limit (rev (sort_key fst (history b))))"
    with set_py_take [of limit "rev (sort_key fst (history b))"]
    have "x \<in> set (history b)" by auto
    with assms have "case x of (s, d) \<Rightarrow> list_all (\<lambda>(k, f). request_ok f) (hreq d)
        \<and> list_all (\<lambda>(k, f). response_ok f) (hresp d)"
      by (simp add: list_all_iff)
    then have "list_all (\<lambda>(k, f). request_ok f) (hreq (snd x))"
        "list_all (\<lambda>(k, f). response_ok f) (hresp (snd x))"
      by (simp_all add: case_prod_beta)
    from history_block_ok [OF this, of "fst x"]
    show "\<exists>y. history_block x = Inr y" by simp
  qed
  then show ?thesis
    by (auto simp: bus_history_def Let_def andthen_def)
qed

lemma respond_ok:
  assumes "list_all (\<lambda>(k, f). request_ok f) (requests b)"
    and plain: "CHR ''/'' \<notin> set request_id"
  shows "\<exists>s. fst (respond_to_oracle_call request_id answer now_iso b) = Inr s"
proof (cases "map_of (requests b) request_id")
  case None
  then show ?thesis by (simp add: respond_plain [OF plain])
next
  case (Some f)
  then have "(request_id, f) \<in> set (requests b)" by (rule map_of_SomeD)
  with assms have "request_ok f" by (auto simp: list_all_iff)
  then obtain d where "f = Json (Dict d)" by (auto dest: request_okD)
  with Some show ?thesis by (simp add: respond_found [OF plain])
qed

lemma garbled_listing:
  assumes "(k, Garbled) \<in> set (requests b)"
  shows "\<exists>e. list_pending_calls b = Inl e" and "\<exists>e. bus_status bus_dir b = Inl e"
proof -
  from assms have ne: "requests b \<noteq> []" by auto
  from assms have mem: "(k, Garbled) \<in> set (sorted_json (requests b))"
    by (simp add: sorted_json_def)
  from collect_raises [OF mem, of "\<lambda>(k, f). andthen (json_load f) pending_block" JSONDecodeError]
  obtain e where "collect (\<lambda>(k, f). andthen (json_load f) pending_block) (sorted_json (requests b)) = Inl e"
    by (auto simp: json_load_def andthen_def)
  with ne show "\<exists>e. list_pending_calls b = Inl e"
    by (simp add: list_pending_calls_def Let_def andthen_def)
  from collect_raises [OF mem, of "\<lambda>(k, f). andthen (json_load f) status_line" JSONDecodeError]
  obtain e where "collect (\<lambda>(k, f). andthen (json_load f) status_line) (sorted_json (requests b)) = Inl e"
    by (auto simp: json_load_def andthen_def)
  with ne show "\<exists>e. bus_status bus_dir b = Inl e"
    by (simp add: bus_status_def Let_def andthen_def)
qed

lemma filter_key_update_other:
  "x \<noteq> k \<Longrightarrow> filter (\<lambda>(k', f). k' = x) (AList.update k v al) = filter (\<lambda>(k', f). k' = x) al"
  by (induction al) auto

lemma in_dir_keeps:
  assumes "\<And>d. G (g d) = G d"
  shows "map (\<lambda>(s, d). G d) (in_dir stamp g hs) = map (\<lambda>(s, d). G d) hs"
  using assms by (induction hs) auto

lemma archived_requests_move_request_other:
  "x \<noteq> request_id \<Longrightarrow>
   archived_requests x (move_request stamp request_id b) = archived_requests x b"
  by (simp add: archived_requests_def move_request_def filter_key_update_other
      in_dir_keeps [where G = "\<lambda>d. map snd (filter (\<lambda>(k, f). k = x) (hreq d))"]
      split: option.splits)

lemma archived_responses_move_response_other:
  "x \<noteq> request_id \<Longrightarrow>
   archived_responses x (move_response stamp request_id b) = archived_responses x b"
  by (simp add: archived_responses_def move_response_def filter_key_update_other
      in_dir_keeps [where G = "\<lambda>d. map snd (filter (\<lambda>(k, f). k = x) (hresp d))"]
      split: option.splits)

lemma archived_ids_archive_exchange:
  "archived_ids (archive_exchange stamp request_id b) \<subseteq> insert request_id (archived_ids b)"
proof
  fix x assume x: "x \<in> archived_ids (archive_exchange stamp request_id b)"
  show "x \<in> insert request_id (archived_ids b)"
  proof (rule ccontr)
    assume "x \<notin> insert request_id (archived_ids b)"
    then have ne: "x \<noteq> request_id" and "x \<notin> archived_ids b" by auto
    then have "archived_requests x b = []" "archived_responses x b = []"
      by (simp_all add: not_archived_iff)
    with ne have "x \<notin> archived_ids (archive_exchange stamp request_id b)"
      by (simp add: not_archived_iff archive_exchange_def archived_requests_move_response
          archived_requests_move_request_other archived_requests_mk_archive_dir
          archived_responses_move_response_other archived_responses_move_request
          archived_responses_mk_archive_dir)
    with x show False by simp
  qed
qed

lemma open_ids_write_request:
  "open_ids (write_request request_id data b) = insert request_id (open_ids b)"
  by (auto simp: open_ids_def write_request_def dom_update)

lemma respond_keeps:
  "open_ids (snd (respond_to_oracle_call request_id answer now_iso b)) = open_ids b"
  "archived_ids (snd (respond_to_oracle_call request_id answer now_iso b)) = archived_ids b"
proof -
  let ?req = "locate b ''requests'' request_id"
  let ?resp = "locate b ''responses'' request_id"
  have written: "open_ids (write_at ?resp g b) = open_ids b
      \<and> archived_ids (write_at ?resp g b) = archived_ids b"
    if f: "content_at b ?req = Some f" for f g
  proof -
    from locate_pair [OF f] show ?thesis
    proof
      assume "?resp = ?req"
      with f show ?thesis by (simp add: write_at_present)
    next
      assume "\<exists>k. ?req = Request_file k \<and> ?resp = Response_file k"
      then obtain k where k: "?req = Request_file k" "?resp = Response_file k" by blast
      with f have "k \<in> fst ` set (requests b)"
        by (auto dest: map_of_SomeD intro: rev_image_eqI)
      with k show ?thesis
        by (auto simp: open_ids_def archived_ids_def dom_update)
    qed
  qed
  show "open_ids (snd (respond_to_oracle_call request_id answer now_iso b)) = open_ids b"
    using written by (auto simp: respond_to_oracle_call_def Let_def split: option.splits sum.splits)
  show "archived_ids (snd (respond_to_oracle_call request_id answer now_iso b)) = archived_ids b"
    using written by (auto simp: respond_to_oracle_call_def Let_def split: option.splits sum.splits)
qed

lemma reachable_disjoint:
  "reachable s \<Longrightarrow> open_ids (store s) \<inter> archived_ids (store s) = {}"
proof (induction rule: reachable.induct)
  case init
  then show ?case by (simp add: init_sys_def empty_bus_def open_ids_def)
next
  case (issue s request_id data)
  then show ?case
    by (auto simp: open_ids_write_request archived_write_request)
next
  case (respond s request_id answer now_iso)
  then show ?case by (simp add: respond_keeps)
next
  case (answered s request_id response stamp)
  with archived_ids_archive_exchange [of stamp request_id "store s"] show ?case
    by (auto simp: open_ids_archive_exchange)
next
  case (timed_out s request_id stamp data)
  with archived_ids_archive_exchange [of stamp request_id "write_request request_id data (store s)"]
  show ?case
    by (auto simp: open_ids_archive_exchange open_ids_write_request archived_write_request)
qed

lemma map_of_in_dir: "map_of (in_dir stamp g hs) stamp = map_option g (map_of hs stamp)"
  by (induction hs) auto

lemma archive_exchange_together:
  assumes "map_of (requests b) request_id = Some f" and "map_of (responses b) request_id = Some g"
  shows "\<exists>d. map_of (history (archive_exchange stamp request_id b)) stamp = Some d
           \<and> map_of (hreq d) request_id = Some f \<and> map_of (hresp d) request_id = Some g"
proof -
  from stamp_in_mk_archive_dir [of stamp b]
  obtain d0 where d0: "map_of (history (mk_archive_dir stamp b)) stamp = Some d0"
    by (metis map_of_eq_None_iff not_Some_eq)
  show ?thesis
    using assms d0
    by (simp add: archive_exchange_def move_response_def move_request_def
        requests_mk_archive_dir responses_mk_archive_dir map_of_in_dir update_conv')
qed

lemma keys_history_write_at: "fst ` set (history (write_at p f b)) = fst ` set (history b)"
  by (cases p) (simp_all add: keys_in_dir)

lemma is_dir_write_at: "is_dir (write_at p f b) d = is_dir b d"
  by (simp add: is_dir_def keys_history_write_at cong: list.case_cong)

lemma walk_write_at: "walk (write_at p f b) d cs = walk b d cs"
  by (induction b d cs rule: walk.induct) (simp_all add: is_dir_write_at)

lemma file_in_write_at: "file_in (write_at p f b) d stem = file_in b d stem"
  by (simp add: file_in_def keys_history_write_at)

lemma locate_write_at: "locate (write_at p f b) part request_id = locate b part request_id"
  by (simp add: locate_def walk_write_at file_in_write_at Let_def cong: reached.case_cong)

lemma content_at_written:
  assumes "content_at b p = Some g"
  shows "content_at (write_at p f b) p = Some f"
proof (cases p)
  case (Archived_request stamp k)
  with assms obtain d where "map_of (history b) stamp = Some d"
    by (auto split: option.splits)
  with Archived_request show ?thesis
    by (simp add: map_of_in_dir update_conv')
next
  case (Archived_response stamp k)
  with assms obtain d where "map_of (history b) stamp = Some d"
    by (auto split: option.splits)
  with Archived_response show ?thesis
    by (simp add: map_of_in_dir update_conv')
qed (use assms in \<open>simp_all add: update_conv'\<close>)

lemma in_dir_twice: "in_dir stamp g (in_dir stamp h hs) = in_dir stamp (\<lambda>d. g (h d)) hs"
  by (induction hs) auto

lemma write_at_twice: "write_at p f2 (write_at p f1 b) = write_at p f2 b"
  by (cases p) (simp_all add: in_dir_twice)

lemma respond_recorded:
  assumes "content_at b (locate b ''requests'' request_id) = Some (Json (Dict r))"
  shows "respond_to_oracle_call request_id answer now_iso b =
           (Inr (''Response recorded for request '' @ request_id
                   @ ''. The caller will receive it shortly.''),
            write_at (locate b ''responses'' request_id)
              (Json (Dict (response_data request_id
                 (case map_of r ''question'' of None \<Rightarrow> JStr [] | Some v \<Rightarrow> v) answer now_iso))) b)"
proof -
  from assms have req: "locate b ''requests'' request_id \<noteq> Outside"
      "locate b ''requests'' request_id \<noteq> A_directory"
    by auto
  from locate_pair [OF assms] assms
  have resp: "locate b ''responses'' request_id \<noteq> Outside"
      "locate b ''responses'' request_id \<noteq> Unheld"
      "locate b ''responses'' request_id \<noteq> A_directory"
      "locate b ''responses'' request_id \<noteq> No_entry"
    by auto
  show ?thesis
    using assms req resp
    by (simp add: respond_to_oracle_call_def Let_def andthen_def json_load_def py_get_def)
qed

lemma respond_absent:
  assumes "locate b ''requests'' request_id \<noteq> Outside"
    and "locate b ''requests'' request_id \<noteq> A_directory"
    and "content_at b (locate b ''requests'' request_id) = None"
  shows "respond_to_oracle_call request_id answer now_iso b =
           (Inr (''No pending request found with ID: '' @ request_id), b)"
  using assms by (simp add: respond_to_oracle_call_def Let_def)

lemma request_after_response_written:
  assumes "content_at b (locate b ''requests'' request_id) = Some (Json (Dict r))"
    and q: "q = (case map_of r ''question'' of None \<Rightarrow> JStr [] | Some v \<Rightarrow> v)"
  shows "\<exists>r'. content_at (write_at (locate b ''responses'' request_id)
                 (Json (Dict (response_data request_id q answer now_iso))) b)
               (locate b ''requests'' request_id) = Some (Json (Dict r'))
             \<and> (case map_of r' ''question'' of None \<Rightarrow> JStr [] | Some v \<Rightarrow> v) = q"
proof -
  from locate_pair [OF assms(1)] show ?thesis
  proof
    assume same: "locate b ''responses'' request_id = locate b ''requests'' request_id"
    have "content_at (write_at (locate b ''requests'' request_id)
            (Json (Dict (response_data request_id q answer now_iso))) b)
          (locate b ''requests'' request_id)
        = Some (Json (Dict (response_data request_id q answer now_iso)))"
      by (rule content_at_written [OF assms(1)])
    with same show ?thesis
      by (simp add: response_data_def)
  next
    assume "\<exists>k. locate b ''requests'' request_id = Request_file k
        \<and> locate b ''responses'' request_id = Response_file k"
    with assms show ?thesis by auto
  qed
qed

lemma poll_returns_text:
  assumes "sleeps_kept p (poll_events request_id start_time timeout_seconds ticks b)"
    and "ticks \<noteq> []"
    and "start_time + of_int timeout_seconds \<le> p + poll_interval * of_nat (length ticks - 1)"
    and "legible request_id ticks b"
  shows "\<exists>text final. poll request_id start_time timeout_seconds data ticks b = Some (Inr text, final)"
  using assms
proof (induction ticks arbitrary: p b)
  case Nil
  then show ?case by simp
next
  case (Cons t ticks)
  show ?case
  proof (cases "clock t - start_time < of_int timeout_seconds")
    case False
    then show ?thesis by simp
  next
    case True
    from Cons.prems(4) consider (quiet) "read_response request_id b = Inr Null"
      | (found) r where "read_response request_id b = Inr (Dict r)"
      by (auto split: sum.splits json.splits)
    then show ?thesis
    proof cases
      case found
      with True show ?thesis
        by (simp add: response_text_Dict)
    next
      case quiet
      with True Cons.prems(1) have p: "p \<le> clock t"
        and rest: "sleeps_kept (clock t + poll_interval)
            (poll_events request_id start_time timeout_seconds ticks (meanwhile t b))"
        by simp_all
      from True p Cons.prems(3) have "0 < poll_interval * of_nat (length ticks)"
        by simp
      then have nonempty: "ticks \<noteq> []"
        by (cases ticks) simp_all
      then have len: "of_nat (length ticks) = of_nat (length ticks - 1) + (1::rat)"
        by (cases ticks) simp_all
      have enough: "start_time + of_int timeout_seconds
          \<le> clock t + poll_interval + poll_interval * of_nat (length ticks - 1)"
        using Cons.prems(3) p by (simp add: len algebra_simps)
      from Cons.prems(4) have "legible request_id ticks (meanwhile t b)"
        by simp
      from Cons.IH [OF rest nonempty enough this] True quiet show ?thesis
        by simp
    qed
  qed
qed

lemma sleeps_kept_fewer_ticks:
  "sleeps_kept p (poll_events request_id start_time timeout_seconds (ticks @ later) b) \<Longrightarrow>
   sleeps_kept p (poll_events request_id start_time timeout_seconds ticks b)"
proof (induction ticks arbitrary: p b)
  case Nil
  then show ?case by simp
next
  case (Cons t ticks)
  then show ?case
    by (auto split: if_splits sum.splits json.splits)
qed

lemma legible_take: "legible request_id ticks b \<Longrightarrow> legible request_id (take n ticks) b"
proof (induction ticks arbitrary: n b)
  case Nil
  then show ?case by simp
next
  case (Cons t ticks)
  then show ?case by (cases n) simp_all
qed

lemma poll_times_not_before:
  "sleeps_kept p (poll_events request_id start_time timeout_seconds ticks b) \<Longrightarrow>
   \<forall>x \<in> set (poll_times (poll_events request_id start_time timeout_seconds ticks b)). p \<le> x"
proof (induction ticks arbitrary: p b)
  case Nil
  then show ?case by simp
next
  case (Cons t ticks)
  show ?case
  proof (cases "clock t - start_time < of_int timeout_seconds")
    case False
    then show ?thesis by simp
  next
    case True
    show ?thesis
    proof (cases "read_response request_id b = Inr Null")
      case False
      with True Cons.prems show ?thesis
        by (auto split: sum.splits json.splits)
    next
      case quiet: True
      with True Cons.prems have p: "p \<le> clock t"
        and rest: "sleeps_kept (clock t + poll_interval)
            (poll_events request_id start_time timeout_seconds ticks (meanwhile t b))"
        by simp_all
      from Cons.IH [OF rest] p True quiet show ?thesis
        by (auto simp: poll_interval_def)
    qed
  qed
qed

lemma spaced_Cons: "(\<forall>y \<in> set xs. x + d \<le> y) \<Longrightarrow> spaced d xs \<Longrightarrow> spaced d (x # xs)"
  by (cases xs) simp_all

lemma polls_spaced:
  "sleeps_kept p (poll_events request_id start_time timeout_seconds ticks b) \<Longrightarrow>
   spaced poll_interval (poll_times (poll_events request_id start_time timeout_seconds ticks b))"
proof (induction ticks arbitrary: p b)
  case Nil
  then show ?case by simp
next
  case (Cons t ticks)
  show ?case
  proof (cases "clock t - start_time < of_int timeout_seconds")
    case False
    then show ?thesis by simp
  next
    case True
    show ?thesis
    proof (cases "read_response request_id b = Inr Null")
      case False
      with True show ?thesis
        by (auto split: sum.splits json.splits)
    next
      case quiet: True
      with True Cons.prems
      have rest: "sleeps_kept (clock t + poll_interval)
            (poll_events request_id start_time timeout_seconds ticks (meanwhile t b))"
        by simp
      from poll_times_not_before [OF rest] Cons.IH [OF rest] True quiet show ?thesis
        by (simp add: spaced_Cons)
    qed
  qed
qed

lemma sleeps_asked:
  "Slept d \<in> set (poll_events request_id start_time timeout_seconds ticks b) \<Longrightarrow> d = poll_interval"
proof (induction ticks arbitrary: b)
  case Nil
  then show ?case by simp
next
  case (Cons t ticks)
  then show ?case
    by (auto split: if_splits sum.splits json.splits)
qed

lemma sleeps_counted:
  assumes "sleeps_kept p (poll_events request_id start_time timeout_seconds ticks b)"
    and "start_time + of_int timeout_seconds \<le> p + poll_interval * of_nat m"
  shows "length (filter (\<lambda>e. e = Slept poll_interval)
           (poll_events request_id start_time timeout_seconds ticks b)) \<le> m"
  using assms
proof (induction ticks arbitrary: p b m)
  case Nil
  then show ?case by simp
next
  case (Cons t ticks)
  show ?case
  proof (cases "clock t - start_time < of_int timeout_seconds")
    case False
    then show ?thesis by simp
  next
    case True
    show ?thesis
    proof (cases "read_response request_id b = Inr Null")
      case False
      with True show ?thesis
        by (auto split: sum.splits json.splits)
    next
      case quiet: True
      with True Cons.prems(1) have p: "p \<le> clock t"
        and rest: "sleeps_kept (clock t + poll_interval)
            (poll_events request_id start_time timeout_seconds ticks (meanwhile t b))"
        by simp_all
      from True p Cons.prems(2) have "0 < poll_interval * of_nat m"
        by simp
      then obtain m' where m: "m = Suc m'"
        by (cases m) simp_all
      have "start_time + of_int timeout_seconds
          \<le> clock t + poll_interval + poll_interval * of_nat m'"
        using Cons.prems(2) p by (simp add: m algebra_simps)
      from Cons.IH [OF rest this] True quiet show ?thesis
        by (simp add: m)
    qed
  qed
qed

section \<open>Properties of the operations\<close>

subsection \<open>No id both open and archived\<close>

text \<open>
  C1 (amended). In every state the operations reach when each of their steps runs without
  another process in between and a call is issued under an id that is neither open nor
  archived, no id is both in an open partition and in the history. From such a state a
  completed \<open>_archive_exchange\<close> leaves the id in no open partition, with its request in
  the history exactly once, its response (if any) exactly once, and both in the directory
  of the stamp. The archive itself is not one step: it renames the request and then the
  response.
\<close>

theorem open_and_archived_disjoint:
  assumes "reachable s"
  shows "open_ids (store s) \<inter> archived_ids (store s) = {}
       \<and> request_id \<notin> open_ids (archive_exchange stamp request_id (store s))
       \<and> (map_of (requests (store s)) request_id = Some f \<longrightarrow>
            archived_requests request_id (archive_exchange stamp request_id (store s)) = [f])
       \<and> (map_of (responses (store s)) request_id = Some g \<longrightarrow>
            archived_responses request_id (archive_exchange stamp request_id (store s)) = [g])
       \<and> (map_of (requests (store s)) request_id = Some f
            \<and> map_of (responses (store s)) request_id = Some g \<longrightarrow>
            (\<exists>d. map_of (history (archive_exchange stamp request_id (store s))) stamp = Some d
                 \<and> map_of (hreq d) request_id = Some f \<and> map_of (hresp d) request_id = Some g))"
proof (intro conjI impI)
  from assms show disj: "open_ids (store s) \<inter> archived_ids (store s) = {}"
    by (rule reachable_disjoint)
  show "request_id \<notin> open_ids (archive_exchange stamp request_id (store s))"
    by (rule not_open_archive_exchange)
  have fresh: "archived_requests request_id (store s) = [] \<and> archived_responses request_id (store s) = []"
    if "request_id \<in> open_ids (store s)"
    using that disj by (simp add: not_archived_iff [symmetric]) blast
  {
    assume f: "map_of (requests (store s)) request_id = Some f"
    then have "request_id \<in> open_ids (store s)"
      by (auto simp: open_ids_def dest: map_of_SomeD intro: rev_image_eqI)
    with fresh f show "archived_requests request_id (archive_exchange stamp request_id (store s)) = [f]"
      by (simp add: archived_requests_archive_exchange)
  }
  {
    assume g: "map_of (responses (store s)) request_id = Some g"
    then have "request_id \<in> open_ids (store s)"
      by (auto simp: open_ids_def dest: map_of_SomeD intro: rev_image_eqI)
    with fresh g show "archived_responses request_id (archive_exchange stamp request_id (store s)) = [g]"
      by (simp add: archived_responses_archive_exchange)
  }
  {
    assume "map_of (requests (store s)) request_id = Some f
        \<and> map_of (responses (store s)) request_id = Some g"
    then show "\<exists>d. map_of (history (archive_exchange stamp request_id (store s))) stamp = Some d
        \<and> map_of (hreq d) request_id = Some f \<and> map_of (hresp d) request_id = Some g"
      by (simp add: archive_exchange_together)
  }
qed

theorem open_and_archived_disjoint_witness:
  "reachable \<lparr>store = snd (respond_to_oracle_call ''3f2a9c1e'' ''A'' ''2026-01-01T00:00:03+00:00''
                  (write_request ''3f2a9c1e'' [(''id'', JStr ''3f2a9c1e''), (''question'', JStr ''Pick A or B?'')] empty_bus)),
       waiting = {''3f2a9c1e''}\<rparr>
   \<and> store \<lparr>store = snd (respond_to_oracle_call ''3f2a9c1e'' ''A'' ''2026-01-01T00:00:03+00:00''
                  (write_request ''3f2a9c1e'' [(''id'', JStr ''3f2a9c1e''), (''question'', JStr ''Pick A or B?'')] empty_bus)),
       waiting = {''3f2a9c1e''}\<rparr> = \<lparr>requests = [(''3f2a9c1e'', Json (Dict [(''id'', JStr ''3f2a9c1e''), (''question'', JStr ''Pick A or B?'')]))],
        responses = [(''3f2a9c1e'', Json (Dict (response_data ''3f2a9c1e'' (JStr ''Pick A or B?'') ''A''
                        ''2026-01-01T00:00:03+00:00'')))],
        history = []\<rparr>
   \<and> open_ids \<lparr>requests = [(''3f2a9c1e'', Json (Dict [(''id'', JStr ''3f2a9c1e''), (''question'', JStr ''Pick A or B?'')]))],
        responses = [(''3f2a9c1e'', Json (Dict (response_data ''3f2a9c1e'' (JStr ''Pick A or B?'') ''A''
                        ''2026-01-01T00:00:03+00:00'')))],
        history = []\<rparr> \<inter> archived_ids \<lparr>requests = [(''3f2a9c1e'', Json (Dict [(''id'', JStr ''3f2a9c1e''), (''question'', JStr ''Pick A or B?'')]))],
        responses = [(''3f2a9c1e'', Json (Dict (response_data ''3f2a9c1e'' (JStr ''Pick A or B?'') ''A''
                        ''2026-01-01T00:00:03+00:00'')))],
        history = []\<rparr> = {}
   \<and> map_of (requests \<lparr>requests = [(''3f2a9c1e'', Json (Dict [(''id'', JStr ''3f2a9c1e''), (''question'', JStr ''Pick A or B?'')]))],
        responses = [(''3f2a9c1e'', Json (Dict (response_data ''3f2a9c1e'' (JStr ''Pick A or B?'') ''A''
                        ''2026-01-01T00:00:03+00:00'')))],
        history = []\<rparr>) ''3f2a9c1e'' = Some (Json (Dict [(''id'', JStr ''3f2a9c1e''), (''question'', JStr ''Pick A or B?'')]))
   \<and> map_of (responses \<lparr>requests = [(''3f2a9c1e'', Json (Dict [(''id'', JStr ''3f2a9c1e''), (''question'', JStr ''Pick A or B?'')]))],
        responses = [(''3f2a9c1e'', Json (Dict (response_data ''3f2a9c1e'' (JStr ''Pick A or B?'') ''A''
                        ''2026-01-01T00:00:03+00:00'')))],
        history = []\<rparr>) ''3f2a9c1e''
       = Some (Json (Dict (response_data ''3f2a9c1e'' (JStr ''Pick A or B?'') ''A''
                        ''2026-01-01T00:00:03+00:00'')))
   \<and> archived_requests ''3f2a9c1e'' (archive_exchange ''20260101_000004'' ''3f2a9c1e'' \<lparr>requests = [(''3f2a9c1e'', Json (Dict [(''id'', JStr ''3f2a9c1e''), (''question'', JStr ''Pick A or B?'')]))],
        responses = [(''3f2a9c1e'', Json (Dict (response_data ''3f2a9c1e'' (JStr ''Pick A or B?'') ''A''
                        ''2026-01-01T00:00:03+00:00'')))],
        history = []\<rparr>)
       = [Json (Dict [(''id'', JStr ''3f2a9c1e''), (''question'', JStr ''Pick A or B?'')])]
   \<and> archived_responses ''3f2a9c1e'' (archive_exchange ''20260101_000004'' ''3f2a9c1e'' \<lparr>requests = [(''3f2a9c1e'', Json (Dict [(''id'', JStr ''3f2a9c1e''), (''question'', JStr ''Pick A or B?'')]))],
        responses = [(''3f2a9c1e'', Json (Dict (response_data ''3f2a9c1e'' (JStr ''Pick A or B?'') ''A''
                        ''2026-01-01T00:00:03+00:00'')))],
        history = []\<rparr>)
       = [Json (Dict (response_data ''3f2a9c1e'' (JStr ''Pick A or B?'') ''A''
                        ''2026-01-01T00:00:03+00:00''))]"
proof -
  have "reachable \<lparr>store = write_request ''3f2a9c1e'' [(''id'', JStr ''3f2a9c1e''), (''question'', JStr ''Pick A or B?'')] (store init_sys),
                    waiting = insert ''3f2a9c1e'' (waiting init_sys)\<rparr>"
    by (rule reachable.issue [OF reachable.init])
       (simp add: init_sys_def empty_bus_def open_ids_def archived_ids_def)
  from reachable.respond [OF this, of "''3f2a9c1e''" "''A''" "''2026-01-01T00:00:03+00:00''"]
  have r: "reachable \<lparr>store = snd (respond_to_oracle_call ''3f2a9c1e'' ''A'' ''2026-01-01T00:00:03+00:00''
                  (write_request ''3f2a9c1e'' [(''id'', JStr ''3f2a9c1e''), (''question'', JStr ''Pick A or B?'')] empty_bus)),
       waiting = {''3f2a9c1e''}\<rparr>"
    by (simp add: init_sys_def)
  have st: "snd (respond_to_oracle_call ''3f2a9c1e'' ''A'' ''2026-01-01T00:00:03+00:00''
                  (write_request ''3f2a9c1e'' [(''id'', JStr ''3f2a9c1e''), (''question'', JStr ''Pick A or B?'')] empty_bus)) = \<lparr>requests = [(''3f2a9c1e'', Json (Dict [(''id'', JStr ''3f2a9c1e''), (''question'', JStr ''Pick A or B?'')]))],
        responses = [(''3f2a9c1e'', Json (Dict (response_data ''3f2a9c1e'' (JStr ''Pick A or B?'') ''A''
                        ''2026-01-01T00:00:03+00:00'')))],
        history = []\<rparr>"
    by (simp add: respond_plain write_request_def empty_bus_def
        andthen_def json_load_def py_get_def)
  from open_and_archived_disjoint [OF r, of "''3f2a9c1e''" "''20260101_000004''"
      "Json (Dict [(''id'', JStr ''3f2a9c1e''), (''question'', JStr ''Pick A or B?'')])"
      "Json (Dict (response_data ''3f2a9c1e'' (JStr ''Pick A or B?'') ''A''
                        ''2026-01-01T00:00:03+00:00''))"]
  show ?thesis
    using r by (simp add: st)
qed

text \<open>
  The claim as stated fails inside \<open>_archive_exchange\<close>: after its first rename and before
  its second, the request of the id is in the history while its response is still in the
  responses directory, and a process that lists the bus then sees the id both open and
  archived.
\<close>

theorem open_and_archived_disjoint_counterexample:
  "''3f2a9c1e'' \<in> open_ids (move_request ''20260101_000004'' ''3f2a9c1e''
       (mk_archive_dir ''20260101_000004'' \<lparr>requests = [(''3f2a9c1e'', Json (Dict [(''id'', JStr ''3f2a9c1e''), (''question'', JStr ''Pick A or B?'')]))],
        responses = [(''3f2a9c1e'', Json (Dict (response_data ''3f2a9c1e'' (JStr ''Pick A or B?'') ''A''
                        ''2026-01-01T00:00:03+00:00'')))],
        history = []\<rparr>))
   \<and> ''3f2a9c1e'' \<in> archived_ids (move_request ''20260101_000004'' ''3f2a9c1e''
       (mk_archive_dir ''20260101_000004'' \<lparr>requests = [(''3f2a9c1e'', Json (Dict [(''id'', JStr ''3f2a9c1e''), (''question'', JStr ''Pick A or B?'')]))],
        responses = [(''3f2a9c1e'', Json (Dict (response_data ''3f2a9c1e'' (JStr ''Pick A or B?'') ''A''
                        ''2026-01-01T00:00:03+00:00'')))],
        history = []\<rparr>))
   \<and> archive_exchange ''20260101_000004'' ''3f2a9c1e'' \<lparr>requests = [(''3f2a9c1e'', Json (Dict [(''id'', JStr ''3f2a9c1e''), (''question'', JStr ''Pick A or B?'')]))],
        responses = [(''3f2a9c1e'', Json (Dict (response_data ''3f2a9c1e'' (JStr ''Pick A or B?'') ''A''
                        ''2026-01-01T00:00:03+00:00'')))],
        history = []\<rparr>
     = move_response ''20260101_000004'' ''3f2a9c1e''
         (move_request ''20260101_000004'' ''3f2a9c1e''
            (mk_archive_dir ''20260101_000004'' \<lparr>requests = [(''3f2a9c1e'', Json (Dict [(''id'', JStr ''3f2a9c1e''), (''question'', JStr ''Pick A or B?'')]))],
        responses = [(''3f2a9c1e'', Json (Dict (response_data ''3f2a9c1e'' (JStr ''Pick A or B?'') ''A''
                        ''2026-01-01T00:00:03+00:00'')))],
        history = []\<rparr>))"
  by (simp add: archive_exchange_def mk_archive_dir_def move_request_def empty_hdir_def
      open_ids_def archived_ids_def)

subsection \<open>Archiving twice\<close>

text \<open>
  C2 (amended). A second \<open>archive(id)\<close> moves nothing: it is the \<open>mkdir\<close> of its own
  stamp and no more. The open partitions and the archived records of every id are as the
  first call left them. When the second stamp names a history directory that exists (as
  it does when both calls fall in the same second), the bus is unchanged; otherwise the
  history gains one empty directory. A call for an id with nothing open is likewise the
  \<open>mkdir\<close> alone.
\<close>

theorem archive_twice:
  "archive_exchange stamp2 request_id (archive_exchange stamp1 request_id b) =
     mk_archive_dir stamp2 (archive_exchange stamp1 request_id b)
   \<and> requests (archive_exchange stamp2 request_id (archive_exchange stamp1 request_id b)) =
       requests (archive_exchange stamp1 request_id b)
   \<and> responses (archive_exchange stamp2 request_id (archive_exchange stamp1 request_id b)) =
       responses (archive_exchange stamp1 request_id b)
   \<and> archived_requests x (archive_exchange stamp2 request_id (archive_exchange stamp1 request_id b)) =
       archived_requests x (archive_exchange stamp1 request_id b)
   \<and> archived_responses x (archive_exchange stamp2 request_id (archive_exchange stamp1 request_id b)) =
       archived_responses x (archive_exchange stamp1 request_id b)
   \<and> (stamp2 \<in> fst ` set (history (archive_exchange stamp1 request_id b)) \<longrightarrow>
        archive_exchange stamp2 request_id (archive_exchange stamp1 request_id b) =
          archive_exchange stamp1 request_id b)
   \<and> (stamp2 \<notin> fst ` set (history (archive_exchange stamp1 request_id b)) \<longrightarrow>
        history (archive_exchange stamp2 request_id (archive_exchange stamp1 request_id b)) =
          history (archive_exchange stamp1 request_id b) @ [(stamp2, empty_hdir)])
   \<and> archive_exchange stamp1 request_id (archive_exchange stamp1 request_id b) =
       archive_exchange stamp1 request_id b
   \<and> (request_id \<notin> open_ids b \<longrightarrow> archive_exchange stamp1 request_id b = mk_archive_dir stamp1 b)"
proof -
  have idle: "archive_exchange stamp1 request_id b = mk_archive_dir stamp1 b"
    if "request_id \<notin> open_ids b"
  proof (rule archive_exchange_nothing)
    from that show "map_of (requests b) request_id = None"
      by (simp add: open_ids_def map_of_eq_None_iff)
    from that show "map_of (responses b) request_id = None"
      by (simp add: open_ids_def map_of_eq_None_iff)
  qed
  have same: "archive_exchange stamp1 request_id (archive_exchange stamp1 request_id b) =
      archive_exchange stamp1 request_id b"
    by (simp add: archive_exchange_again mk_archive_dir_present stamp_in_archive_exchange)
  have absent: "history (archive_exchange stamp2 request_id (archive_exchange stamp1 request_id b)) =
        history (archive_exchange stamp1 request_id b) @ [(stamp2, empty_hdir)]"
    if "stamp2 \<notin> fst ` set (history (archive_exchange stamp1 request_id b))"
    using that by (simp add: archive_exchange_again) (simp add: mk_archive_dir_def)
  have present: "archive_exchange stamp2 request_id (archive_exchange stamp1 request_id b) =
        archive_exchange stamp1 request_id b"
    if "stamp2 \<in> fst ` set (history (archive_exchange stamp1 request_id b))"
    using that by (simp add: archive_exchange_again mk_archive_dir_present)
  have kept: "requests (archive_exchange stamp2 request_id (archive_exchange stamp1 request_id b)) =
        requests (archive_exchange stamp1 request_id b)"
      "responses (archive_exchange stamp2 request_id (archive_exchange stamp1 request_id b)) =
        responses (archive_exchange stamp1 request_id b)"
      "archived_requests x (archive_exchange stamp2 request_id (archive_exchange stamp1 request_id b)) =
        archived_requests x (archive_exchange stamp1 request_id b)"
      "archived_responses x (archive_exchange stamp2 request_id (archive_exchange stamp1 request_id b)) =
        archived_responses x (archive_exchange stamp1 request_id b)"
    by (simp_all add: archive_exchange_again requests_mk_archive_dir responses_mk_archive_dir
        archived_requests_mk_archive_dir archived_responses_mk_archive_dir)
  note facts = archive_exchange_again kept present absent same idle
  show ?thesis
    by (intro conjI impI; (rule facts; assumption?))
qed

theorem archive_twice_witness:
  "''20260101_000005'' \<in> fst ` set (history (archive_exchange ''20260101_000005'' ''3f2a9c1e''
        \<lparr>requests = [(''3f2a9c1e'', Json (Dict [(''id'', JStr ''3f2a9c1e'')]))],
         responses = [(''3f2a9c1e'', Json (Dict [(''answer'', JStr ''A'')]))], history = []\<rparr>))
   \<and> archive_exchange ''20260101_000005'' ''3f2a9c1e''
       (archive_exchange ''20260101_000005'' ''3f2a9c1e''
        \<lparr>requests = [(''3f2a9c1e'', Json (Dict [(''id'', JStr ''3f2a9c1e'')]))],
         responses = [(''3f2a9c1e'', Json (Dict [(''answer'', JStr ''A'')]))], history = []\<rparr>)
     = archive_exchange ''20260101_000005'' ''3f2a9c1e''
        \<lparr>requests = [(''3f2a9c1e'', Json (Dict [(''id'', JStr ''3f2a9c1e'')]))],
         responses = [(''3f2a9c1e'', Json (Dict [(''answer'', JStr ''A'')]))], history = []\<rparr>
   \<and> ''20260101_000009'' \<notin> fst ` set (history (archive_exchange ''20260101_000005'' ''3f2a9c1e''
        \<lparr>requests = [(''3f2a9c1e'', Json (Dict [(''id'', JStr ''3f2a9c1e'')]))],
         responses = [(''3f2a9c1e'', Json (Dict [(''answer'', JStr ''A'')]))], history = []\<rparr>))
   \<and> history (archive_exchange ''20260101_000009'' ''3f2a9c1e''
       (archive_exchange ''20260101_000005'' ''3f2a9c1e''
        \<lparr>requests = [(''3f2a9c1e'', Json (Dict [(''id'', JStr ''3f2a9c1e'')]))],
         responses = [(''3f2a9c1e'', Json (Dict [(''answer'', JStr ''A'')]))], history = []\<rparr>))
     = [(''20260101_000005'',
          \<lparr>hreq = [(''3f2a9c1e'', Json (Dict [(''id'', JStr ''3f2a9c1e'')]))],
           hresp = [(''3f2a9c1e'', Json (Dict [(''answer'', JStr ''A'')]))]\<rparr>),
        (''20260101_000009'', \<lparr>hreq = [], hresp = []\<rparr>)]
   \<and> ''0badc0de'' \<notin> open_ids
        \<lparr>requests = [(''3f2a9c1e'', Json (Dict [(''id'', JStr ''3f2a9c1e'')]))],
         responses = [(''3f2a9c1e'', Json (Dict [(''answer'', JStr ''A'')]))], history = []\<rparr>
   \<and> archive_exchange ''20260101_000005'' ''0badc0de''
        \<lparr>requests = [(''3f2a9c1e'', Json (Dict [(''id'', JStr ''3f2a9c1e'')]))],
         responses = [(''3f2a9c1e'', Json (Dict [(''answer'', JStr ''A'')]))], history = []\<rparr>
     = \<lparr>requests = [(''3f2a9c1e'', Json (Dict [(''id'', JStr ''3f2a9c1e'')]))],
        responses = [(''3f2a9c1e'', Json (Dict [(''answer'', JStr ''A'')]))],
        history = [(''20260101_000005'', \<lparr>hreq = [], hresp = []\<rparr>)]\<rparr>"
  using archive_twice [of "''20260101_000005''" "''3f2a9c1e''" "''20260101_000005''"
      "\<lparr>requests = [(''3f2a9c1e'', Json (Dict [(''id'', JStr ''3f2a9c1e'')]))],
         responses = [(''3f2a9c1e'', Json (Dict [(''answer'', JStr ''A'')]))], history = []\<rparr>"]
    archive_twice [of "''20260101_000009''" "''3f2a9c1e''" "''20260101_000005''"
      "\<lparr>requests = [(''3f2a9c1e'', Json (Dict [(''id'', JStr ''3f2a9c1e'')]))],
         responses = [(''3f2a9c1e'', Json (Dict [(''answer'', JStr ''A'')]))], history = []\<rparr>"]
    archive_twice [of "''20260101_000005''" "''0badc0de''" "''20260101_000005''"
      "\<lparr>requests = [(''3f2a9c1e'', Json (Dict [(''id'', JStr ''3f2a9c1e'')]))],
         responses = [(''3f2a9c1e'', Json (Dict [(''answer'', JStr ''A'')]))], history = []\<rparr>"]
  by (simp add: archive_exchange_def mk_archive_dir_def move_request_def move_response_def
      empty_hdir_def open_ids_def)

text \<open>
  The claim as stated fails: a second call one second later adds an empty directory, and
  \<open>bus_status\<close> reports two historical exchanges where it reported one; a call on an
  empty bus, with nothing to archive, raises the count from 0 to 1.
\<close>

theorem archive_twice_counterexample:
  "bus_status ''/bus''
     (archive_exchange ''20260101_000006'' ''3f2a9c1e''
        (archive_exchange ''20260101_000005'' ''3f2a9c1e''
           \<lparr>requests = [(''3f2a9c1e'', Json (Dict [(''id'', JStr ''3f2a9c1e'')]))],
            responses = [], history = []\<rparr>))
   \<noteq> bus_status ''/bus''
     (archive_exchange ''20260101_000005'' ''3f2a9c1e''
        \<lparr>requests = [(''3f2a9c1e'', Json (Dict [(''id'', JStr ''3f2a9c1e'')]))],
         responses = [], history = []\<rparr>)
   \<and> length (history (archive_exchange ''20260101_000006'' ''3f2a9c1e''
        (archive_exchange ''20260101_000005'' ''3f2a9c1e''
           \<lparr>requests = [(''3f2a9c1e'', Json (Dict [(''id'', JStr ''3f2a9c1e'')]))],
            responses = [], history = []\<rparr>))) = 2
   \<and> length (history (archive_exchange ''20260101_000005'' ''3f2a9c1e''
        \<lparr>requests = [(''3f2a9c1e'', Json (Dict [(''id'', JStr ''3f2a9c1e'')]))],
         responses = [], history = []\<rparr>)) = 1
   \<and> archive_exchange ''20260101_000005'' ''3f2a9c1e'' \<lparr>requests = [], responses = [], history = []\<rparr>
       \<noteq> \<lparr>requests = [], responses = [], history = []\<rparr>"
  by (simp add: archive_exchange_def mk_archive_dir_def move_request_def move_response_def
      empty_hdir_def bus_status_def digit_def)

subsection \<open>A call that is answered\<close>

text \<open>
  C3 (amended). The loop polls at its start and after each sleep, as long as the elapsed
  time read in the loop test is below \<open>timeout_seconds\<close>. When the earlier polls found no
  response and one such poll finds a response file for the id that holds a JSON object,
  \<open>oracle_call\<close> archives the exchange and returns "Oracle response (<responder>):
  <answer>" with the fields of that record (or their defaults). Afterwards the id is in
  no open partition, and (the request file still being open at that poll and the id not
  having been in the history before) the history holds the request and the response of
  the exchange exactly once each. A response written after the last poll is not
  returned.
\<close>

theorem oracle_call_answered:
  assumes "unanswered (new_request_id uuid4) start_time timeout_seconds pre
             (write_request (new_request_id uuid4)
                (request_data (new_request_id uuid4) question ctx urgency timestamp) b)"
    and "clock t - start_time < of_int timeout_seconds"
    and "map_of (responses (after pre (write_request (new_request_id uuid4)
           (request_data (new_request_id uuid4) question ctx urgency timestamp) b)))
           (new_request_id uuid4) = Some (Json (Dict r))"
    and "map_of (requests (after pre (write_request (new_request_id uuid4)
           (request_data (new_request_id uuid4) question ctx urgency timestamp) b)))
           (new_request_id uuid4) = Some f"
    and "new_request_id uuid4 \<notin> archived_ids
           (after pre (write_request (new_request_id uuid4)
              (request_data (new_request_id uuid4) question ctx urgency timestamp) b))"
  shows "\<exists>final.
           oracle_call question ctx urgency timeout_seconds uuid4 timestamp start_time (pre @ t # post) b
             = Some (Inr (''Oracle response (''
                    @ py_str (case map_of r ''responder'' of None \<Rightarrow> JStr ''oracle'' | Some v \<Rightarrow> v)
                    @ ''): ''
                    @ py_str (case map_of r ''answer'' of
                                None \<Rightarrow> JStr ''(no answer provided)'' | Some v \<Rightarrow> v)),
                     final)
         \<and> final = archive_exchange (utc_stamp t) (new_request_id uuid4)
                     (after pre (write_request (new_request_id uuid4)
                        (request_data (new_request_id uuid4) question ctx urgency timestamp) b))
         \<and> new_request_id uuid4 \<notin> open_ids final
         \<and> archived_requests (new_request_id uuid4) final = [f]
         \<and> archived_responses (new_request_id uuid4) final = [Json (Dict r)]"
proof -
  let ?rid = "new_request_id uuid4"
  let ?b1 = "write_request ?rid (request_data ?rid question ctx urgency timestamp) b"
  let ?final = "archive_exchange (utc_stamp t) ?rid (after pre ?b1)"
  have run: "oracle_call question ctx urgency timeout_seconds uuid4 timestamp start_time (pre @ t # post) b
      = Some (response_text (Dict r), ?final)"
    by (simp only: oracle_call_def Let_def poll_unanswered [OF assms(1)]
        poll_answered [OF assms(2) assms(3)])
  from assms(5) have fresh: "archived_requests ?rid (after pre ?b1) = []"
      "archived_responses ?rid (after pre ?b1) = []"
    by (simp_all add: not_archived_iff)
  have once: "archived_requests ?rid ?final = [f]"
    by (rule archived_requests_archive_exchange [OF assms(4) fresh(1)])
  have once': "archived_responses ?rid ?final = [Json (Dict r)]"
    by (rule archived_responses_archive_exchange [OF assms(3) fresh(2)])
  from run once once' not_open_archive_exchange [of ?rid "utc_stamp t"]
  show ?thesis
    by (simp add: response_text_Dict)
qed

theorem oracle_call_answered_witness:
  "unanswered (new_request_id ''3f2a9c1e-1111-4111-8111-111111111111'') 0 60
     [\<lparr>clock = 0, utc_stamp = ''20260101_000000'',
        meanwhile = (\<lambda>b. snd (respond_to_oracle_call ''3f2a9c1e'' ''A'' ''2026-01-01T00:00:01+00:00'' b))\<rparr>]
     (write_request (new_request_id ''3f2a9c1e-1111-4111-8111-111111111111'')
        (request_data (new_request_id ''3f2a9c1e-1111-4111-8111-111111111111'') ''Pick A or B?'' [] ''high'' ''2026-01-01T00:00:00+00:00'') empty_bus)
   \<and> clock (idle_tick 2 ''20260101_000002'') - 0 < of_int 60
   \<and> map_of (responses (after [\<lparr>clock = 0, utc_stamp = ''20260101_000000'',
        meanwhile = (\<lambda>b. snd (respond_to_oracle_call ''3f2a9c1e'' ''A'' ''2026-01-01T00:00:01+00:00'' b))\<rparr>]
       (write_request (new_request_id ''3f2a9c1e-1111-4111-8111-111111111111'')
        (request_data (new_request_id ''3f2a9c1e-1111-4111-8111-111111111111'') ''Pick A or B?'' [] ''high'' ''2026-01-01T00:00:00+00:00'') empty_bus)))
       (new_request_id ''3f2a9c1e-1111-4111-8111-111111111111'')
     = Some (Json (Dict
                     [(''id'', JStr ''3f2a9c1e''), (''type'', JStr ''oracle_response''),
                      (''question'', JStr ''Pick A or B?''), (''answer'', JStr ''A''),
                      (''responder'', JStr ''oracle''),
                      (''timestamp'', JStr ''2026-01-01T00:00:01+00:00'')]))
   \<and> map_of (requests (after [\<lparr>clock = 0, utc_stamp = ''20260101_000000'',
        meanwhile = (\<lambda>b. snd (respond_to_oracle_call ''3f2a9c1e'' ''A'' ''2026-01-01T00:00:01+00:00'' b))\<rparr>]
       (write_request (new_request_id ''3f2a9c1e-1111-4111-8111-111111111111'')
        (request_data (new_request_id ''3f2a9c1e-1111-4111-8111-111111111111'') ''Pick A or B?'' [] ''high'' ''2026-01-01T00:00:00+00:00'') empty_bus)))
       (new_request_id ''3f2a9c1e-1111-4111-8111-111111111111'')
     = Some (Json (Dict
                     [(''id'', JStr ''3f2a9c1e''), (''type'', JStr ''oracle_call''),
                      (''from_level'', JInt 2), (''to_level'', JInt 3),
                      (''question'', JStr ''Pick A or B?''), (''context'', JStr []),
                      (''urgency'', JStr ''high''),
                      (''timestamp'', JStr ''2026-01-01T00:00:00+00:00''),
                      (''status'', JStr ''pending'')]))
   \<and> new_request_id ''3f2a9c1e-1111-4111-8111-111111111111'' \<notin> archived_ids (after [\<lparr>clock = 0, utc_stamp = ''20260101_000000'',
        meanwhile = (\<lambda>b. snd (respond_to_oracle_call ''3f2a9c1e'' ''A'' ''2026-01-01T00:00:01+00:00'' b))\<rparr>]
       (write_request (new_request_id ''3f2a9c1e-1111-4111-8111-111111111111'')
        (request_data (new_request_id ''3f2a9c1e-1111-4111-8111-111111111111'') ''Pick A or B?'' [] ''high'' ''2026-01-01T00:00:00+00:00'') empty_bus))
   \<and> oracle_call ''Pick A or B?'' [] ''high'' 60 ''3f2a9c1e-1111-4111-8111-111111111111'' ''2026-01-01T00:00:00+00:00'' 0
         ([\<lparr>clock = 0, utc_stamp = ''20260101_000000'',
        meanwhile = (\<lambda>b. snd (respond_to_oracle_call ''3f2a9c1e'' ''A'' ''2026-01-01T00:00:01+00:00'' b))\<rparr>] @ idle_tick 2 ''20260101_000002'' # [])
         empty_bus
     = Some (Inr ''Oracle response (oracle): A'',
         \<lparr>requests = [], responses = [],
          history =
            [(''20260101_000002'',
              \<lparr>hreq = [(''3f2a9c1e'', Json (Dict
                     [(''id'', JStr ''3f2a9c1e''), (''type'', JStr ''oracle_call''),
                      (''from_level'', JInt 2), (''to_level'', JInt 3),
                      (''question'', JStr ''Pick A or B?''), (''context'', JStr []),
                      (''urgency'', JStr ''high''),
                      (''timestamp'', JStr ''2026-01-01T00:00:00+00:00''),
                      (''status'', JStr ''pending'')]))],
               hresp = [(''3f2a9c1e'', Json (Dict
                     [(''id'', JStr ''3f2a9c1e''), (''type'', JStr ''oracle_response''),
                      (''question'', JStr ''Pick A or B?''), (''answer'', JStr ''A''),
                      (''responder'', JStr ''oracle''),
                      (''timestamp'', JStr ''2026-01-01T00:00:01+00:00'')]))]\<rparr>)]\<rparr>)"
  using oracle_call_answered [of "''3f2a9c1e-1111-4111-8111-111111111111''" 0 60
      "[\<lparr>clock = 0, utc_stamp = ''20260101_000000'',
        meanwhile = (\<lambda>b. snd (respond_to_oracle_call ''3f2a9c1e'' ''A'' ''2026-01-01T00:00:01+00:00'' b))\<rparr>]"
      "''Pick A or B?''" "[]" "''high''" "''2026-01-01T00:00:00+00:00''" empty_bus
      "idle_tick 2 ''20260101_000002''"
      "[(''id'', JStr ''3f2a9c1e''), (''type'', JStr ''oracle_response''),
        (''question'', JStr ''Pick A or B?''), (''answer'', JStr ''A''),
        (''responder'', JStr ''oracle''),
        (''timestamp'', JStr ''2026-01-01T00:00:01+00:00'')]"
      "Json (Dict
                     [(''id'', JStr ''3f2a9c1e''), (''type'', JStr ''oracle_call''),
                      (''from_level'', JInt 2), (''to_level'', JInt 3),
                      (''question'', JStr ''Pick A or B?''), (''context'', JStr []),
                      (''urgency'', JStr ''high''),
                      (''timestamp'', JStr ''2026-01-01T00:00:00+00:00''),
                      (''status'', JStr ''pending'')])" "[]"]
  by (simp add: new_request_id_def request_data_def response_data_def idle_tick_def empty_bus_def
      read_response_def write_request_def archived_ids_def respond_plain
      andthen_def json_load_def py_get_def
      archive_exchange_def mk_archive_dir_def move_request_def move_response_def empty_hdir_def)

text \<open>
  The claim as stated fails for a response written after the last poll. With a timeout of
  6 seconds and sleeps of exactly 2 seconds the polls are at 0, 2 and 4 seconds; a
  response recorded during the third sleep, before 6 seconds have elapsed, is met by the
  loop test at 6 seconds, which ends the loop: the call returns the timeout text, and
  the response goes into the history with the request.
\<close>

theorem oracle_call_answered_counterexample:
  "oracle_call ''Pick A or B?'' [] ''high'' 6 ''3f2a9c1e-1111-4111-8111-111111111111'' ''2026-01-01T00:00:00+00:00'' 0
     [idle_tick 0 ''20260101_000000'', idle_tick 2 ''20260101_000002'',
      \<lparr>clock = 4, utc_stamp = ''20260101_000004'',
        meanwhile = (\<lambda>b. snd (respond_to_oracle_call ''3f2a9c1e'' ''A'' ''2026-01-01T00:00:05+00:00'' b))\<rparr>,
      idle_tick 6 ''20260101_000006'']
     empty_bus
   = Some (Inr ''Oracle call timed out after 6s. The oracle did not respond. Request ID: 3f2a9c1e'',
       \<lparr>requests = [], responses = [],
        history =
          [(''20260101_000006'',
            \<lparr>hreq = [(''3f2a9c1e'', Json (Dict
                     [(''id'', JStr ''3f2a9c1e''), (''type'', JStr ''oracle_call''),
                      (''from_level'', JInt 2), (''to_level'', JInt 3),
                      (''question'', JStr ''Pick A or B?''), (''context'', JStr []),
                      (''urgency'', JStr ''high''),
                      (''timestamp'', JStr ''2026-01-01T00:00:00+00:00''),
                      (''status'', JStr ''timeout'')]))],
             hresp = [(''3f2a9c1e'', Json (Dict
                     [(''id'', JStr ''3f2a9c1e''), (''type'', JStr ''oracle_response''),
                      (''question'', JStr ''Pick A or B?''), (''answer'', JStr ''A''),
                      (''responder'', JStr ''oracle''),
                      (''timestamp'', JStr ''2026-01-01T00:00:05+00:00'')]))]\<rparr>)]\<rparr>)"
  by (simp add: oracle_call_def Let_def new_request_id_def request_data_def response_data_def
      idle_tick_def empty_bus_def timeout_text_def dec_int_def digit_def
      read_response_def write_request_def respond_plain
      andthen_def json_load_def py_get_def
      archive_exchange_def mk_archive_dir_def move_request_def move_response_def empty_hdir_def)

subsection \<open>A call that times out\<close>

text \<open>
  C4 (amended). When every poll of the loop finds no response and a loop test then finds
  that \<open>timeout_seconds\<close> have elapsed, \<open>oracle_call\<close> writes the request anew with
  status timeout, archives the exchange and returns the timeout text, which ends with
  the id of the call. Afterwards the id is in no open partition, and, provided the id
  was not in the history before, the history holds the request of the exchange exactly
  once, with status timeout.
\<close>

theorem oracle_call_times_out:
  assumes "unanswered (new_request_id uuid4) start_time timeout_seconds pre
             (write_request (new_request_id uuid4)
                (request_data (new_request_id uuid4) question ctx urgency timestamp) b)"
    and "of_int timeout_seconds \<le> clock t - start_time"
    and "new_request_id uuid4 \<notin> archived_ids
           (after pre (write_request (new_request_id uuid4)
              (request_data (new_request_id uuid4) question ctx urgency timestamp) b))"
  shows "\<exists>final.
           oracle_call question ctx urgency timeout_seconds uuid4 timestamp start_time (pre @ t # post) b
             = Some (Inr (''Oracle call timed out after '' @ dec_int timeout_seconds
                            @ ''s. The oracle did not respond. Request ID: '' @ new_request_id uuid4),
                     final)
         \<and> final = archive_exchange (utc_stamp t) (new_request_id uuid4)
                     (write_request (new_request_id uuid4)
                        (AList.update ''status'' (JStr ''timeout'')
                           (request_data (new_request_id uuid4) question ctx urgency timestamp))
                        (after pre (write_request (new_request_id uuid4)
                           (request_data (new_request_id uuid4) question ctx urgency timestamp) b)))
         \<and> new_request_id uuid4 \<notin> open_ids final
         \<and> archived_requests (new_request_id uuid4) final =
             [Json (Dict (AList.update ''status'' (JStr ''timeout'')
                (request_data (new_request_id uuid4) question ctx urgency timestamp)))]
         \<and> map_of (AList.update ''status'' (JStr ''timeout'')
                (request_data (new_request_id uuid4) question ctx urgency timestamp)) ''status''
             = Some (JStr ''timeout'')"
proof -
  let ?rid = "new_request_id uuid4"
  let ?data = "request_data ?rid question ctx urgency timestamp"
  let ?late = "AList.update ''status'' (JStr ''timeout'') ?data"
  let ?b1 = "write_request ?rid ?data b"
  let ?final = "archive_exchange (utc_stamp t) ?rid (write_request ?rid ?late (after pre ?b1))"
  from assms(2) have over: "\<not> clock t - start_time < of_int timeout_seconds" by simp
  have run: "oracle_call question ctx urgency timeout_seconds uuid4 timestamp start_time (pre @ t # post) b
      = Some (Inr (timeout_text timeout_seconds ?rid), ?final)"
    by (simp only: oracle_call_def Let_def poll_unanswered [OF assms(1)] poll_timed_out [OF over])
  have fresh: "archived_requests ?rid (write_request ?rid ?late (after pre ?b1)) = []"
    using assms(3) by (simp add: not_archived_iff archived_write_request)
  have once: "archived_requests ?rid ?final = [Json (Dict ?late)]"
    by (rule archived_requests_archive_exchange [OF map_of_write_request fresh])
  have status: "map_of ?late ''status'' = Some (JStr ''timeout'')"
    by (simp add: update_conv')
  from run once status not_open_archive_exchange [of ?rid "utc_stamp t"]
  show ?thesis
    by (simp add: timeout_text_def)
qed

theorem oracle_call_times_out_witness:
  "unanswered (new_request_id ''3f2a9c1e-1111-4111-8111-111111111111'') 0 5
     [idle_tick 0 ''20260101_000000'', idle_tick 2 ''20260101_000002'', idle_tick 4 ''20260101_000004'']
     (write_request (new_request_id ''3f2a9c1e-1111-4111-8111-111111111111'')
        (request_data (new_request_id ''3f2a9c1e-1111-4111-8111-111111111111'')
           ''Deploy to prod?'' [] ''normal'' ''2026-01-01T00:00:00+00:00'') empty_bus)
   \<and> of_int 5 \<le> clock (idle_tick 6 ''20260101_000006'') - 0
   \<and> new_request_id ''3f2a9c1e-1111-4111-8111-111111111111'' \<notin> archived_ids
       (after [idle_tick 0 ''20260101_000000'', idle_tick 2 ''20260101_000002'', idle_tick 4 ''20260101_000004'']
          (write_request (new_request_id ''3f2a9c1e-1111-4111-8111-111111111111'')
             (request_data (new_request_id ''3f2a9c1e-1111-4111-8111-111111111111'')
                ''Deploy to prod?'' [] ''normal'' ''2026-01-01T00:00:00+00:00'') empty_bus))
   \<and> oracle_call ''Deploy to prod?'' [] ''normal'' 5 ''3f2a9c1e-1111-4111-8111-111111111111''
         ''2026-01-01T00:00:00+00:00'' 0
         ([idle_tick 0 ''20260101_000000'', idle_tick 2 ''20260101_000002'',
           idle_tick 4 ''20260101_000004''] @ idle_tick 6 ''20260101_000006'' # [])
         empty_bus
     = Some (Inr ''Oracle call timed out after 5s. The oracle did not respond. Request ID: 3f2a9c1e'',
         \<lparr>requests = [], responses = [],
          history =
            [(''20260101_000006'',
              \<lparr>hreq =
                 [(''3f2a9c1e'',
                   Json (Dict
                     [(''id'', JStr ''3f2a9c1e''), (''type'', JStr ''oracle_call''),
                      (''from_level'', JInt 2), (''to_level'', JInt 3),
                      (''question'', JStr ''Deploy to prod?''), (''context'', JStr []),
                      (''urgency'', JStr ''normal''),
                      (''timestamp'', JStr ''2026-01-01T00:00:00+00:00''),
                      (''status'', JStr ''timeout'')]))],
               hresp = []\<rparr>)]\<rparr>)"
  using oracle_call_times_out [of "''3f2a9c1e-1111-4111-8111-111111111111''" 0 5
      "[idle_tick 0 ''20260101_000000'', idle_tick 2 ''20260101_000002'', idle_tick 4 ''20260101_000004'']"
      "''Deploy to prod?''" "[]" "''normal''" "''2026-01-01T00:00:00+00:00''" empty_bus
      "idle_tick 6 ''20260101_000006''" "[]"]
  by (simp add: new_request_id_def request_data_def idle_tick_def empty_bus_def
      read_response_def write_request_def archived_ids_def dec_int_def digit_def
      archive_exchange_def mk_archive_dir_def move_request_def move_response_def empty_hdir_def)

text \<open>
  The claim as stated fails when the id is in the history already, which nothing in the
  code excludes: the id is the first 8 characters of a UUID. A first call under
  \<open>3f2a9c1e\<close> has timed out and is archived; a later call whose UUID begins alike
  times out with no response written, and the history then holds two requests under the
  id.
\<close>

theorem oracle_call_times_out_counterexample:
  "oracle_call ''Pick A or B?'' [] ''high'' 5 ''3f2a9c1e-2222-4222-8222-222222222222''
     ''2026-01-01T00:01:00+00:00'' 60
     [idle_tick 60 ''20260101_000100'', idle_tick 62 ''20260101_000102'',
      idle_tick 64 ''20260101_000104'', idle_tick 66 ''20260101_000106'']
     \<lparr>requests = [], responses = [],
      history =
           [(''20260101_000006'',
              \<lparr>hreq = [(''3f2a9c1e'', Json (Dict
                     [(''id'', JStr ''3f2a9c1e''), (''type'', JStr ''oracle_call''),
                      (''from_level'', JInt 2), (''to_level'', JInt 3),
                      (''question'', JStr ''Deploy to prod?''), (''context'', JStr []),
                      (''urgency'', JStr ''normal''),
                      (''timestamp'', JStr ''2026-01-01T00:00:00+00:00''),
                      (''status'', JStr ''timeout'')]))],
               hresp = []\<rparr>)]\<rparr>
   = Some (Inr ''Oracle call timed out after 5s. The oracle did not respond. Request ID: 3f2a9c1e'',
       \<lparr>requests = [], responses = [],
        history =
           [(''20260101_000006'',
              \<lparr>hreq = [(''3f2a9c1e'', Json (Dict
                     [(''id'', JStr ''3f2a9c1e''), (''type'', JStr ''oracle_call''),
                      (''from_level'', JInt 2), (''to_level'', JInt 3),
                      (''question'', JStr ''Deploy to prod?''), (''context'', JStr []),
                      (''urgency'', JStr ''normal''),
                      (''timestamp'', JStr ''2026-01-01T00:00:00+00:00''),
                      (''status'', JStr ''timeout'')]))],
               hresp = []\<rparr>),
            (''20260101_000106'',
              \<lparr>hreq = [(''3f2a9c1e'', Json (Dict
                     [(''id'', JStr ''3f2a9c1e''), (''type'', JStr ''oracle_call''),
                      (''from_level'', JInt 2), (''to_level'', JInt 3),
                      (''question'', JStr ''Pick A or B?''), (''context'', JStr []),
                      (''urgency'', JStr ''high''),
                      (''timestamp'', JStr ''2026-01-01T00:01:00+00:00''),
                      (''status'', JStr ''timeout'')]))],
               hresp = []\<rparr>)]\<rparr>)
   \<and> archived_requests ''3f2a9c1e''
       \<lparr>requests = [], responses = [],
        history =
           [(''20260101_000006'',
              \<lparr>hreq = [(''3f2a9c1e'', Json (Dict
                     [(''id'', JStr ''3f2a9c1e''), (''type'', JStr ''oracle_call''),
                      (''from_level'', JInt 2), (''to_level'', JInt 3),
                      (''question'', JStr ''Deploy to prod?''), (''context'', JStr []),
                      (''urgency'', JStr ''normal''),
                      (''timestamp'', JStr ''2026-01-01T00:00:00+00:00''),
                      (''status'', JStr ''timeout'')]))],
               hresp = []\<rparr>),
            (''20260101_000106'',
              \<lparr>hreq = [(''3f2a9c1e'', Json (Dict
                     [(''id'', JStr ''3f2a9c1e''), (''type'', JStr ''oracle_call''),
                      (''from_level'', JInt 2), (''to_level'', JInt 3),
                      (''question'', JStr ''Pick A or B?''), (''context'', JStr []),
                      (''urgency'', JStr ''high''),
                      (''timestamp'', JStr ''2026-01-01T00:01:00+00:00''),
                      (''status'', JStr ''timeout'')]))],
               hresp = []\<rparr>)]\<rparr>
     = [Json (Dict
                     [(''id'', JStr ''3f2a9c1e''), (''type'', JStr ''oracle_call''),
                      (''from_level'', JInt 2), (''to_level'', JInt 3),
                      (''question'', JStr ''Deploy to prod?''), (''context'', JStr []),
                      (''urgency'', JStr ''normal''),
                      (''timestamp'', JStr ''2026-01-01T00:00:00+00:00''),
                      (''status'', JStr ''timeout'')]),
        Json (Dict
                     [(''id'', JStr ''3f2a9c1e''), (''type'', JStr ''oracle_call''),
                      (''from_level'', JInt 2), (''to_level'', JInt 3),
                      (''question'', JStr ''Pick A or B?''), (''context'', JStr []),
                      (''urgency'', JStr ''high''),
                      (''timestamp'', JStr ''2026-01-01T00:01:00+00:00''),
                      (''status'', JStr ''timeout'')])]"
  by (simp add: oracle_call_def Let_def new_request_id_def request_data_def
      idle_tick_def timeout_text_def dec_int_def digit_def archived_requests_def
      read_response_def write_request_def
      archive_exchange_def mk_archive_dir_def move_request_def move_response_def empty_hdir_def)

subsection \<open>The call returns\<close>

text \<open>
  C5 (amended). Provided the clock does not run backwards, every \<open>asyncio.sleep\<close> lasts
  at least as long as it was asked to (\<open>sleeps_kept\<close>), and the response file of the call
  is absent, \<open>null\<close> or a JSON object whenever it is read (\<open>legible\<close>), \<open>oracle_call\<close>
  returns a text, and it does so within \<open>\<lceil>timeout_seconds / poll_interval\<rceil>\<close> sleeps
  (none when \<open>timeout_seconds\<close> is not positive): the ticks beyond that number are never
  used. Every sleep it asks for is of the poll interval, and two consecutive polls are at
  least a poll interval apart. The wait is not bounded by \<open>timeout_seconds\<close> itself: that
  many sleeps of exactly the poll interval take at least \<open>timeout_seconds\<close> and less than
  \<open>timeout_seconds\<close> plus one poll interval.
\<close>

theorem oracle_call_returns:
  assumes "sleeps_kept start_time
      (oracle_call_events question ctx urgency timeout_seconds uuid4 timestamp start_time ticks b)"
    and "nat \<lceil>of_int timeout_seconds / poll_interval\<rceil> < length ticks"
    and "legible (new_request_id uuid4) ticks
      (write_request (new_request_id uuid4)
         (request_data (new_request_id uuid4) question ctx urgency timestamp) b)"
  shows "(\<exists>text final.
            oracle_call question ctx urgency timeout_seconds uuid4 timestamp start_time ticks b
              = Some (Inr text, final)
            \<and> oracle_call question ctx urgency timeout_seconds uuid4 timestamp start_time
                (take (Suc (nat \<lceil>of_int timeout_seconds / poll_interval\<rceil>)) ticks) b
              = Some (Inr text, final))
         \<and> spaced poll_interval
             (poll_times
                (oracle_call_events question ctx urgency timeout_seconds uuid4 timestamp
                   start_time ticks b))
         \<and> (\<forall>d. Slept d \<in> set (oracle_call_events question ctx urgency timeout_seconds uuid4
                                  timestamp start_time ticks b) \<longrightarrow> d = poll_interval)
         \<and> length (filter (\<lambda>e. e = Slept poll_interval)
                     (oracle_call_events question ctx urgency timeout_seconds uuid4 timestamp
                        start_time ticks b))
             \<le> nat \<lceil>of_int timeout_seconds / poll_interval\<rceil>
         \<and> of_int timeout_seconds
             \<le> poll_interval * of_nat (nat \<lceil>of_int timeout_seconds / poll_interval\<rceil>)
         \<and> (0 \<le> timeout_seconds \<longrightarrow>
              poll_interval * of_nat (nat \<lceil>of_int timeout_seconds / poll_interval\<rceil>)
                < of_int timeout_seconds + poll_interval)"
proof -
  let ?n = "nat \<lceil>of_int timeout_seconds / poll_interval\<rceil>"
  let ?rid = "new_request_id uuid4"
  let ?data = "request_data ?rid question ctx urgency timestamp"
  let ?b1 = "write_request ?rid ?data b"
  let ?used = "take (Suc ?n) ticks"
  have split: "ticks = ?used @ drop (Suc ?n) ticks"
    by simp
  from assms(1) have kept: "sleeps_kept start_time (poll_events ?rid start_time timeout_seconds ticks ?b1)"
    by (simp add: oracle_call_events_def Let_def del: poll_events.simps)
  then have "sleeps_kept start_time
      (poll_events ?rid start_time timeout_seconds (?used @ drop (Suc ?n) ticks) ?b1)"
    by (simp only: append_take_drop_id)
  then have kept_used: "sleeps_kept start_time (poll_events ?rid start_time timeout_seconds ?used ?b1)"
    by (rule sleeps_kept_fewer_ticks)
  from assms(2) have len: "length ?used = Suc ?n"
    by simp
  then have nonempty: "?used \<noteq> []"
    by auto
  have enough: "start_time + of_int timeout_seconds
      \<le> start_time + poll_interval * of_nat (length ?used - 1)"
    using sleeps_cover_timeout [of timeout_seconds] by (simp only: len) simp
  have legible_used: "legible ?rid ?used ?b1"
    using assms(3) by (rule legible_take)
  from poll_returns_text [OF kept_used nonempty enough legible_used]
  obtain out final
    where used: "poll ?rid start_time timeout_seconds ?data ?used ?b1 = Some (Inr out, final)"
    by blast
  from poll_more_ticks [OF used, of "drop (Suc ?n) ticks"]
  have all: "poll ?rid start_time timeout_seconds ?data ticks ?b1 = Some (Inr out, final)"
    by simp
  from used all have returns: "\<exists>text final.
      oracle_call question ctx urgency timeout_seconds uuid4 timestamp start_time ticks b
        = Some (Inr text, final)
      \<and> oracle_call question ctx urgency timeout_seconds uuid4 timestamp start_time ?used b
        = Some (Inr text, final)"
    by (simp add: oracle_call_def Let_def del: poll.simps)
  from polls_spaced [OF kept]
  have pace: "spaced poll_interval
      (poll_times
         (oracle_call_events question ctx urgency timeout_seconds uuid4 timestamp
            start_time ticks b))"
    by (simp add: oracle_call_events_def Let_def del: poll_events.simps)
  have asked: "\<forall>d. Slept d \<in> set (oracle_call_events question ctx urgency timeout_seconds uuid4
                                  timestamp start_time ticks b) \<longrightarrow> d = poll_interval"
    using sleeps_asked [of _ ?rid start_time timeout_seconds ticks ?b1]
    by (simp add: oracle_call_events_def Let_def del: poll_events.simps)
  have "start_time + of_int timeout_seconds \<le> start_time + poll_interval * of_nat ?n"
    using sleeps_cover_timeout [of timeout_seconds] by simp
  from sleeps_counted [OF kept this]
  have counted: "length (filter (\<lambda>e. e = Slept poll_interval)
                     (oracle_call_events question ctx urgency timeout_seconds uuid4 timestamp
                        start_time ticks b)) \<le> ?n"
    by (simp add: oracle_call_events_def Let_def del: poll_events.simps)
  have above: "of_int timeout_seconds \<le> poll_interval * of_nat ?n"
    by (rule sleeps_cover_timeout)
  have below: "0 \<le> timeout_seconds \<longrightarrow> poll_interval * of_nat ?n < of_int timeout_seconds + poll_interval"
    using sleeps_below_timeout_plus_interval [of timeout_seconds] by blast
  from returns pace asked counted above below show ?thesis
    by (intro conjI)
qed

theorem oracle_call_returns_witness:
  "sleeps_kept 0
     (oracle_call_events ''Deploy to prod?'' [] ''normal'' 5 ''3f2a9c1e-1111-4111-8111-111111111111''
        ''2026-01-01T00:00:00+00:00'' 0
        [idle_tick 0 ''20260101_000000'', idle_tick 2 ''20260101_000002'',
         idle_tick 4 ''20260101_000004'', idle_tick 6 ''20260101_000006'',
         idle_tick 8 ''20260101_000008''] empty_bus)
   \<and> nat \<lceil>of_int 5 / poll_interval\<rceil>
       < length [idle_tick 0 ''20260101_000000'', idle_tick 2 ''20260101_000002'',
            idle_tick 4 ''20260101_000004'', idle_tick 6 ''20260101_000006'',
            idle_tick 8 ''20260101_000008'']
   \<and> legible (new_request_id ''3f2a9c1e-1111-4111-8111-111111111111'')
       [idle_tick 0 ''20260101_000000'', idle_tick 2 ''20260101_000002'',
        idle_tick 4 ''20260101_000004'', idle_tick 6 ''20260101_000006'',
        idle_tick 8 ''20260101_000008'']
       (write_request (new_request_id ''3f2a9c1e-1111-4111-8111-111111111111'')
          (request_data (new_request_id ''3f2a9c1e-1111-4111-8111-111111111111'')
             ''Deploy to prod?'' [] ''normal'' ''2026-01-01T00:00:00+00:00'') empty_bus)
   \<and> (0::int) \<le> 5
   \<and> (\<exists>text final.
         oracle_call ''Deploy to prod?'' [] ''normal'' 5 ''3f2a9c1e-1111-4111-8111-111111111111''
           ''2026-01-01T00:00:00+00:00'' 0
           [idle_tick 0 ''20260101_000000'', idle_tick 2 ''20260101_000002'',
            idle_tick 4 ''20260101_000004'', idle_tick 6 ''20260101_000006'',
            idle_tick 8 ''20260101_000008''] empty_bus = Some (Inr text, final)
         \<and> oracle_call ''Deploy to prod?'' [] ''normal'' 5 ''3f2a9c1e-1111-4111-8111-111111111111''
           ''2026-01-01T00:00:00+00:00'' 0
           [idle_tick 0 ''20260101_000000'', idle_tick 2 ''20260101_000002'',
            idle_tick 4 ''20260101_000004'', idle_tick 6 ''20260101_000006''] empty_bus
           = Some (Inr text, final))
   \<and> spaced poll_interval
       (poll_times
          (oracle_call_events ''Deploy to prod?'' [] ''normal'' 5
             ''3f2a9c1e-1111-4111-8111-111111111111'' ''2026-01-01T00:00:00+00:00'' 0
             [idle_tick 0 ''20260101_000000'', idle_tick 2 ''20260101_000002'',
              idle_tick 4 ''20260101_000004'', idle_tick 6 ''20260101_000006'',
              idle_tick 8 ''20260101_000008''] empty_bus))
   \<and> length (filter (\<lambda>e. e = Slept poll_interval)
         (oracle_call_events ''Deploy to prod?'' [] ''normal'' 5
            ''3f2a9c1e-1111-4111-8111-111111111111'' ''2026-01-01T00:00:00+00:00'' 0
            [idle_tick 0 ''20260101_000000'', idle_tick 2 ''20260101_000002'',
             idle_tick 4 ''20260101_000004'', idle_tick 6 ''20260101_000006'',
             idle_tick 8 ''20260101_000008''] empty_bus)) \<le> 3
   \<and> poll_interval * of_nat (nat \<lceil>of_int 5 / poll_interval\<rceil>) < of_int 5 + poll_interval"
proof -
  let ?ticks = "[idle_tick 0 ''20260101_000000'', idle_tick 2 ''20260101_000002'',
                 idle_tick 4 ''20260101_000004'', idle_tick 6 ''20260101_000006'',
                 idle_tick 8 ''20260101_000008'']"
  have "\<lceil>5 / (2::rat)\<rceil> = 3"
    by (simp add: ceiling_eq_iff)
  then have n: "nat \<lceil>of_int 5 / poll_interval\<rceil> = 3" "nat \<lceil>5 / poll_interval\<rceil> = 3"
    by (simp_all add: poll_interval_def)
  have k: "sleeps_kept 0
     (oracle_call_events ''Deploy to prod?'' [] ''normal'' 5 ''3f2a9c1e-1111-4111-8111-111111111111''
        ''2026-01-01T00:00:00+00:00'' 0 ?ticks empty_bus)"
    by (simp add: oracle_call_events_def Let_def new_request_id_def request_data_def
        idle_tick_def empty_bus_def read_response_def write_request_def poll_interval_def)
  have l: "nat \<lceil>of_int 5 / poll_interval\<rceil> < length ?ticks"
    by (simp add: n)
  have g: "legible (new_request_id ''3f2a9c1e-1111-4111-8111-111111111111'') ?ticks
       (write_request (new_request_id ''3f2a9c1e-1111-4111-8111-111111111111'')
          (request_data (new_request_id ''3f2a9c1e-1111-4111-8111-111111111111'')
             ''Deploy to prod?'' [] ''normal'' ''2026-01-01T00:00:00+00:00'') empty_bus)"
    by (simp add: new_request_id_def request_data_def idle_tick_def empty_bus_def
        read_response_def write_request_def)
  from oracle_call_returns [OF k l g]
  show ?thesis
    using k l g by (simp add: n)
qed

text \<open>
  The claim as stated fails in two ways. The timeout is not a hard bound on the wait:
  with a timeout of 5 seconds and sleeps of exactly 2 seconds, the call is still waiting
  after the loop test at 4 seconds (three ticks do not make it return); it returns at the
  test that follows the third sleep, 6 seconds after its start. And the call does not
  always return: a response file that is not JSON makes the first poll raise
  \<open>JSONDecodeError\<close>, the request left where it was written.
\<close>

theorem oracle_call_returns_counterexample:
  "oracle_call ''Deploy to prod?'' [] ''normal'' 5 ''3f2a9c1e-1111-4111-8111-111111111111''
     ''2026-01-01T00:00:00+00:00'' 0
     [idle_tick 0 ''20260101_000000'', idle_tick 2 ''20260101_000002'',
      idle_tick 4 ''20260101_000004''] empty_bus = None
   \<and> (\<exists>final. oracle_call ''Deploy to prod?'' [] ''normal'' 5 ''3f2a9c1e-1111-4111-8111-111111111111''
     ''2026-01-01T00:00:00+00:00'' 0
     [idle_tick 0 ''20260101_000000'', idle_tick 2 ''20260101_000002'',
      idle_tick 4 ''20260101_000004'', idle_tick 6 ''20260101_000006''] empty_bus
     = Some (Inr ''Oracle call timed out after 5s. The oracle did not respond. Request ID: 3f2a9c1e'',
             final))
   \<and> oracle_call_events ''Deploy to prod?'' [] ''normal'' 5 ''3f2a9c1e-1111-4111-8111-111111111111''
       ''2026-01-01T00:00:00+00:00'' 0
       [idle_tick 0 ''20260101_000000'', idle_tick 2 ''20260101_000002'',
        idle_tick 4 ''20260101_000004'', idle_tick 6 ''20260101_000006''] empty_bus
     = [Tested 0, Polled, Slept 2, Tested 2, Polled, Slept 2, Tested 4, Polled, Slept 2, Tested 6]
   \<and> of_int 5 < clock (idle_tick 6 ''20260101_000006'') - (0::rat)
   \<and> (\<exists>final. oracle_call ''Deploy to prod?'' [] ''normal'' 5 ''3f2a9c1e-1111-4111-8111-111111111111''
     ''2026-01-01T00:00:00+00:00'' 0
     [idle_tick 0 ''20260101_000000'', idle_tick 2 ''20260101_000002'',
      idle_tick 4 ''20260101_000004'', idle_tick 6 ''20260101_000006'']
     \<lparr>requests = [], responses = [(''3f2a9c1e'', Garbled)], history = []\<rparr>
     = Some (Inl JSONDecodeError, final)
     \<and> map fst (requests final) = [''3f2a9c1e''])"
  by (simp add: oracle_call_def oracle_call_events_def Let_def new_request_id_def
      request_data_def idle_tick_def empty_bus_def timeout_text_def dec_int_def digit_def
      read_response_def write_request_def json_load_def poll_interval_def)

subsection \<open>Answering an id that is not open\<close>

text \<open>
  C6 (amended). When the request path of the id, \<open>REQUESTS_DIR/<id>.json\<close>, stays in the
  bus directory and names neither a file nor a directory there, \<open>respond_to_oracle_call\<close>
  returns the text "No pending request found with ID: <id>" and the bus is the one it
  was given: no response file is created and nothing else is changed. That is so of
  every id without \<open>/\<close> in it that has no open request.
\<close>

theorem respond_not_found:
  "(locate b ''requests'' request_id \<noteq> Outside
      \<and> locate b ''requests'' request_id \<noteq> A_directory
      \<and> content_at b (locate b ''requests'' request_id) = None \<longrightarrow>
      respond_to_oracle_call request_id answer now_iso b =
        (Inr (''No pending request found with ID: '' @ request_id), b))
   \<and> (CHR ''/'' \<notin> set request_id \<and> request_id \<notin> fst ` set (requests b) \<longrightarrow>
      respond_to_oracle_call request_id answer now_iso b =
        (Inr (''No pending request found with ID: '' @ request_id), b))"
proof (intro conjI impI)
  assume "locate b ''requests'' request_id \<noteq> Outside
      \<and> locate b ''requests'' request_id \<noteq> A_directory
      \<and> content_at b (locate b ''requests'' request_id) = None"
  then show "respond_to_oracle_call request_id answer now_iso b =
      (Inr (''No pending request found with ID: '' @ request_id), b)"
    by (simp add: respond_absent)
next
  assume a: "CHR ''/'' \<notin> set request_id \<and> request_id \<notin> fst ` set (requests b)"
  then have "map_of (requests b) request_id = None"
    by (simp add: map_of_eq_None_iff)
  with a show "respond_to_oracle_call request_id answer now_iso b =
      (Inr (''No pending request found with ID: '' @ request_id), b)"
    by (simp add: respond_plain)
qed

theorem respond_not_found_witness:
  "CHR ''/'' \<notin> set ''deadbeef''
   \<and> ''deadbeef'' \<notin> fst ` set (requests
       \<lparr>requests = [(''3f2a9c1e'', Json (Dict (request_data ''3f2a9c1e'' ''Deploy?'' [] ''normal'' ''2026-01-01T00:00:00+00:00'')))],
        responses = [], history = []\<rparr>)
   \<and> locate \<lparr>requests = [(''3f2a9c1e'', Json (Dict (request_data ''3f2a9c1e'' ''Deploy?'' [] ''normal'' ''2026-01-01T00:00:00+00:00'')))],
        responses = [], history = []\<rparr> ''requests'' ''sub/deadbeef'' = No_entry
   \<and> content_at \<lparr>requests = [(''3f2a9c1e'', Json (Dict (request_data ''3f2a9c1e'' ''Deploy?'' [] ''normal'' ''2026-01-01T00:00:00+00:00'')))],
        responses = [], history = []\<rparr> No_entry = None
   \<and> respond_to_oracle_call ''deadbeef'' ''yes'' ''2026-01-01T00:00:03+00:00''
       \<lparr>requests = [(''3f2a9c1e'', Json (Dict (request_data ''3f2a9c1e'' ''Deploy?'' [] ''normal'' ''2026-01-01T00:00:00+00:00'')))],
        responses = [], history = []\<rparr>
     = (Inr ''No pending request found with ID: deadbeef'',
       \<lparr>requests = [(''3f2a9c1e'', Json (Dict (request_data ''3f2a9c1e'' ''Deploy?'' [] ''normal'' ''2026-01-01T00:00:00+00:00'')))],
        responses = [], history = []\<rparr>)
   \<and> respond_to_oracle_call ''sub/deadbeef'' ''yes'' ''2026-01-01T00:00:03+00:00''
       \<lparr>requests = [(''3f2a9c1e'', Json (Dict (request_data ''3f2a9c1e'' ''Deploy?'' [] ''normal'' ''2026-01-01T00:00:00+00:00'')))],
        responses = [], history = []\<rparr>
     = (Inr ''No pending request found with ID: sub/deadbeef'',
       \<lparr>requests = [(''3f2a9c1e'', Json (Dict (request_data ''3f2a9c1e'' ''Deploy?'' [] ''normal'' ''2026-01-01T00:00:00+00:00'')))],
        responses = [], history = []\<rparr>)"
  using respond_not_found [of
      "\<lparr>requests = [(''3f2a9c1e'', Json (Dict (request_data ''3f2a9c1e'' ''Deploy?'' [] ''normal'' ''2026-01-01T00:00:00+00:00'')))],
        responses = [], history = []\<rparr>" "''deadbeef''" "''yes''" "''2026-01-01T00:00:03+00:00''"]
    respond_not_found [of
      "\<lparr>requests = [(''3f2a9c1e'', Json (Dict (request_data ''3f2a9c1e'' ''Deploy?'' [] ''normal'' ''2026-01-01T00:00:00+00:00'')))],
        responses = [], history = []\<rparr>" "''sub/deadbeef''" "''yes''" "''2026-01-01T00:00:03+00:00''"]
  by (simp add: locate_def is_dir_def)

text \<open>
  The claim as stated fails for an id with a path in it. No request is open under the id
  \<open>./3f2a9c1e\<close>, but its request path is that of the open request \<open>3f2a9c1e\<close>: the
  call finds the file, answers "Response recorded" and writes a response file.
\<close>

theorem respond_not_found_counterexample:
  "''./3f2a9c1e'' \<notin> fst ` set (requests
       \<lparr>requests = [(''3f2a9c1e'', Json (Dict (request_data ''3f2a9c1e'' ''Deploy?'' [] ''normal'' ''2026-01-01T00:00:00+00:00'')))],
        responses = [], history = []\<rparr>)
   \<and> respond_to_oracle_call ''./3f2a9c1e'' ''yes'' ''2026-01-01T00:00:03+00:00''
       \<lparr>requests = [(''3f2a9c1e'', Json (Dict (request_data ''3f2a9c1e'' ''Deploy?'' [] ''normal'' ''2026-01-01T00:00:00+00:00'')))],
        responses = [], history = []\<rparr>
     = (Inr ''Response recorded for request ./3f2a9c1e. The caller will receive it shortly.'',
        \<lparr>requests = [(''3f2a9c1e'', Json (Dict
            [(''id'', JStr ''3f2a9c1e''), (''type'', JStr ''oracle_call''),
             (''from_level'', JInt 2), (''to_level'', JInt 3),
             (''question'', JStr ''Deploy?''), (''context'', JStr []),
             (''urgency'', JStr ''normal''),
             (''timestamp'', JStr ''2026-01-01T00:00:00+00:00''),
             (''status'', JStr ''pending'')]))],
         responses = [(''3f2a9c1e'', Json (Dict
            [(''id'', JStr ''./3f2a9c1e''), (''type'', JStr ''oracle_response''),
             (''question'', JStr ''Deploy?''), (''answer'', JStr ''yes''),
             (''responder'', JStr ''oracle''),
             (''timestamp'', JStr ''2026-01-01T00:00:03+00:00'')]))],
         history = []\<rparr>)"
  by (simp add: respond_to_oracle_call_def locate_def file_in_def Let_def request_data_def
      response_data_def andthen_def json_load_def py_get_def)

subsection \<open>Results and exceptions\<close>

text \<open>
  C7 (amended). The code handles no exception. On a bus whose open requests and archived
  records are JSON objects with text in the fields that are sliced or upper-cased, the
  listings \<open>list_pending_calls\<close>, \<open>bus_status\<close> and \<open>bus_history\<close> return text, and
  so does \<open>respond_to_oracle_call\<close> for an id without \<open>/\<close> in it. A request file that
  does not parse is not skipped: \<open>list_pending_calls\<close> and \<open>bus_status\<close> raise and list
  nothing, \<open>respond_to_oracle_call\<close> for the id of that file raises and writes nothing,
  and \<open>oracle_call\<close> raises at the poll that finds its response file garbled, leaving
  its request open. Archiving parses nothing: it moves a garbled request into the history
  like any other.
\<close>

theorem operations_return_or_raise:
  "(readable b \<longrightarrow>
      (\<exists>s. list_pending_calls b = Inr s) \<and> (\<exists>s. bus_status bus_dir b = Inr s)
      \<and> (\<exists>s. bus_history limit b = Inr s)
      \<and> (CHR ''/'' \<notin> set request_id \<longrightarrow>
           (\<exists>s. fst (respond_to_oracle_call request_id answer now_iso b) = Inr s)))
   \<and> ((k, Garbled) \<in> set (requests b) \<longrightarrow>
      (\<exists>e. list_pending_calls b = Inl e) \<and> (\<exists>e. bus_status bus_dir b = Inl e))
   \<and> (CHR ''/'' \<notin> set request_id \<and> map_of (requests b) request_id = Some Garbled \<longrightarrow>
      respond_to_oracle_call request_id answer now_iso b = (Inl JSONDecodeError, b))
   \<and> (clock t - start_time < of_int timeout_seconds
        \<and> map_of (responses b) request_id = Some Garbled \<longrightarrow>
      poll request_id start_time timeout_seconds data (t # ts) b = Some (Inl JSONDecodeError, b))
   \<and> (map_of (requests b) request_id = Some Garbled \<and> archived_requests request_id b = [] \<longrightarrow>
      archived_requests request_id (archive_exchange stamp request_id b) = [Garbled])"
proof (intro conjI impI)
  assume "readable b"
  then have req: "list_all (\<lambda>(k, f). request_ok f) (requests b)"
    and hist: "list_all (\<lambda>(s, d). list_all (\<lambda>(k, f). request_ok f) (hreq d)
                           \<and> list_all (\<lambda>(k, f). response_ok f) (hresp d)) (history b)"
    by (simp_all add: readable_def)
  from req show "\<exists>s. list_pending_calls b = Inr s" by (rule list_pending_calls_ok)
  from req show "\<exists>s. bus_status bus_dir b = Inr s" by (rule bus_status_ok)
  from hist show "\<exists>s. bus_history limit b = Inr s" by (rule bus_history_ok)
  assume "CHR ''/'' \<notin> set request_id"
  with req show "\<exists>s. fst (respond_to_oracle_call request_id answer now_iso b) = Inr s"
    by (rule respond_ok)
next
  assume "(k, Garbled) \<in> set (requests b)"
  then show "\<exists>e. list_pending_calls b = Inl e" by (rule garbled_listing)
next
  assume "(k, Garbled) \<in> set (requests b)"
  then show "\<exists>e. bus_status bus_dir b = Inl e" by (rule garbled_listing)
next
  assume "CHR ''/'' \<notin> set request_id \<and> map_of (requests b) request_id = Some Garbled"
  then show "respond_to_oracle_call request_id answer now_iso b = (Inl JSONDecodeError, b)"
    by (simp add: respond_plain json_load_def andthen_def)
next
  assume "clock t - start_time < of_int timeout_seconds
      \<and> map_of (responses b) request_id = Some Garbled"
  then show "poll request_id start_time timeout_seconds data (t # ts) b
      = Some (Inl JSONDecodeError, b)"
    by (simp add: read_response_def json_load_def)
next
  assume "map_of (requests b) request_id = Some Garbled \<and> archived_requests request_id b = []"
  then show "archived_requests request_id (archive_exchange stamp request_id b) = [Garbled]"
    by (simp add: archived_requests_archive_exchange)
qed

theorem operations_return_or_raise_witness:
  "readable \<lparr>requests = [(''3f2a9c1e'', Json (Dict [(''id'', JStr ''3f2a9c1e''), (''question'', JStr ''Deploy?'')]))],
        responses = [],
        history = [(''20260101_000005'',
          \<lparr>hreq = [(''0badc0de'', Json (Dict [(''question'', JStr ''Pick A or B?'')]))],
           hresp = [(''0badc0de'', Json (Dict [(''answer'', JStr ''A'')]))]\<rparr>)]\<rparr>
   \<and> list_pending_calls \<lparr>requests = [(''3f2a9c1e'', Json (Dict [(''id'', JStr ''3f2a9c1e''), (''question'', JStr ''Deploy?'')]))],
        responses = [],
        history = [(''20260101_000005'',
          \<lparr>hreq = [(''0badc0de'', Json (Dict [(''question'', JStr ''Pick A or B?'')]))],
           hresp = [(''0badc0de'', Json (Dict [(''answer'', JStr ''A'')]))]\<rparr>)]\<rparr>
     = Inr (join_nl [''=== Pending Oracle Calls ==='', [], ''Request ID: 3f2a9c1e'',
          ''  Question: Deploy?'', ''  Context: (none)'', ''  Urgency: normal'', ''  Time: ?'',
          ''  Status: pending'', []])
   \<and> (''7b0c4d2a'', Garbled) \<in> set (requests \<lparr>requests = [(''3f2a9c1e'', Json (Dict [(''id'', JStr ''3f2a9c1e''), (''question'', JStr ''Deploy?'')])),
                   (''7b0c4d2a'', Garbled)],
        responses = [(''7b0c4d2a'', Garbled)], history = []\<rparr>)
   \<and> map_of (requests \<lparr>requests = [(''3f2a9c1e'', Json (Dict [(''id'', JStr ''3f2a9c1e''), (''question'', JStr ''Deploy?'')])),
                   (''7b0c4d2a'', Garbled)],
        responses = [(''7b0c4d2a'', Garbled)], history = []\<rparr>) ''7b0c4d2a'' = Some Garbled
   \<and> clock (idle_tick 0 ''20260101_000000'') - 0 < of_int 5
   \<and> map_of (responses \<lparr>requests = [(''3f2a9c1e'', Json (Dict [(''id'', JStr ''3f2a9c1e''), (''question'', JStr ''Deploy?'')])),
                   (''7b0c4d2a'', Garbled)],
        responses = [(''7b0c4d2a'', Garbled)], history = []\<rparr>) ''7b0c4d2a'' = Some Garbled
   \<and> archived_requests ''7b0c4d2a'' \<lparr>requests = [(''3f2a9c1e'', Json (Dict [(''id'', JStr ''3f2a9c1e''), (''question'', JStr ''Deploy?'')])),
                   (''7b0c4d2a'', Garbled)],
        responses = [(''7b0c4d2a'', Garbled)], history = []\<rparr> = []
   \<and> list_pending_calls \<lparr>requests = [(''3f2a9c1e'', Json (Dict [(''id'', JStr ''3f2a9c1e''), (''question'', JStr ''Deploy?'')])),
                   (''7b0c4d2a'', Garbled)],
        responses = [(''7b0c4d2a'', Garbled)], history = []\<rparr> = Inl JSONDecodeError
   \<and> CHR ''/'' \<notin> set ''3f2a9c1e''
   \<and> fst (respond_to_oracle_call ''3f2a9c1e'' ''A'' ''2026-01-01T00:00:03+00:00''
        \<lparr>requests = [(''3f2a9c1e'', Json (Dict [(''id'', JStr ''3f2a9c1e''), (''question'', JStr ''Deploy?'')]))],
        responses = [],
        history = [(''20260101_000005'',
          \<lparr>hreq = [(''0badc0de'', Json (Dict [(''question'', JStr ''Pick A or B?'')]))],
           hresp = [(''0badc0de'', Json (Dict [(''answer'', JStr ''A'')]))]\<rparr>)]\<rparr>)
     = Inr ''Response recorded for request 3f2a9c1e. The caller will receive it shortly.''
   \<and> CHR ''/'' \<notin> set ''7b0c4d2a''
   \<and> respond_to_oracle_call ''7b0c4d2a'' ''A'' ''2026-01-01T00:00:03+00:00''
        \<lparr>requests = [(''3f2a9c1e'', Json (Dict [(''id'', JStr ''3f2a9c1e''), (''question'', JStr ''Deploy?'')])),
                   (''7b0c4d2a'', Garbled)],
        responses = [(''7b0c4d2a'', Garbled)], history = []\<rparr>
     = (Inl JSONDecodeError,
        \<lparr>requests = [(''3f2a9c1e'', Json (Dict [(''id'', JStr ''3f2a9c1e''), (''question'', JStr ''Deploy?'')])),
                   (''7b0c4d2a'', Garbled)],
        responses = [(''7b0c4d2a'', Garbled)], history = []\<rparr>)
   \<and> archived_requests ''7b0c4d2a'' (archive_exchange ''20260101_000009'' ''7b0c4d2a'' \<lparr>requests = [(''3f2a9c1e'', Json (Dict [(''id'', JStr ''3f2a9c1e''), (''question'', JStr ''Deploy?'')])),
                   (''7b0c4d2a'', Garbled)],
        responses = [(''7b0c4d2a'', Garbled)], history = []\<rparr>)
     = [Garbled]"
  using operations_return_or_raise [of "\<lparr>requests = [(''3f2a9c1e'', Json (Dict [(''id'', JStr ''3f2a9c1e''), (''question'', JStr ''Deploy?'')]))],
        responses = [],
        history = [(''20260101_000005'',
          \<lparr>hreq = [(''0badc0de'', Json (Dict [(''question'', JStr ''Pick A or B?'')]))],
           hresp = [(''0badc0de'', Json (Dict [(''answer'', JStr ''A'')]))]\<rparr>)]\<rparr>" "''/bus''" 10 "''3f2a9c1e''" "''A''"
      "''2026-01-01T00:00:03+00:00''" "''3f2a9c1e''" "idle_tick 0 ''20260101_000000''" 0 5 "[]" "[]" "''20260101_000009''"]
    operations_return_or_raise [of "\<lparr>requests = [(''3f2a9c1e'', Json (Dict [(''id'', JStr ''3f2a9c1e''), (''question'', JStr ''Deploy?'')])),
                   (''7b0c4d2a'', Garbled)],
        responses = [(''7b0c4d2a'', Garbled)], history = []\<rparr>" "''/bus''" 10 "''7b0c4d2a''" "''A''"
      "''2026-01-01T00:00:03+00:00''" "''7b0c4d2a''" "idle_tick 0 ''20260101_000000''" 0 5 "[]" "[]" "''20260101_000009''"]
  by (simp add: readable_def request_ok_def response_ok_def text_field_def idle_tick_def
      archived_requests_def list_pending_calls_def sorted_json_def collect_def json_load_def
      pending_block_def fmt_get_def py_get_def andthen_def respond_plain)

text \<open>
  The claim as stated fails: one garbled request file makes the listing raise, and the
  readable request beside it is not listed; a garbled record in the history does the
  same to \<open>bus_history\<close>; and \<open>respond_to_oracle_call\<close> raises on the garbled file that
  the request path of its id names, be it a response file reached through \<open>..\<close>.
\<close>

theorem operations_return_or_raise_counterexample:
  "list_pending_calls \<lparr>requests = [(''3f2a9c1e'', Json (Dict [(''id'', JStr ''3f2a9c1e''), (''question'', JStr ''Deploy?'')])),
                   (''7b0c4d2a'', Garbled)],
        responses = [(''7b0c4d2a'', Garbled)], history = []\<rparr> = Inl JSONDecodeError
   \<and> bus_status ''/bus'' \<lparr>requests = [(''3f2a9c1e'', Json (Dict [(''id'', JStr ''3f2a9c1e''), (''question'', JStr ''Deploy?'')])),
                   (''7b0c4d2a'', Garbled)],
        responses = [(''7b0c4d2a'', Garbled)], history = []\<rparr> = Inl JSONDecodeError
   \<and> bus_history 10
       \<lparr>requests = [], responses = [],
        history = [(''20260101_000005'', \<lparr>hreq = [(''0badc0de'', Garbled)], hresp = []\<rparr>),
                   (''20260101_000009'',
                    \<lparr>hreq = [(''3f2a9c1e'', Json (Dict [(''id'', JStr ''3f2a9c1e'')]))],
                     hresp = []\<rparr>)]\<rparr>
     = Inl JSONDecodeError
   \<and> fst (respond_to_oracle_call ''../responses/7b0c4d2a'' ''A'' ''2026-01-01T00:00:03+00:00''
        \<lparr>requests = [(''3f2a9c1e'', Json (Dict [(''id'', JStr ''3f2a9c1e''), (''question'', JStr ''Deploy?'')]))],
         responses = [(''7b0c4d2a'', Garbled)], history = []\<rparr>)
     = Inl JSONDecodeError"
  by (simp add: list_pending_calls_def bus_status_def bus_history_def sorted_json_def
      respond_to_oracle_call_def locate_def is_dir_def file_in_def Let_def
      collect_def json_load_def pending_block_def status_line_def history_block_def
      history_request_lines_def py_take_def fmt_get_def py_get_def andthen_def upper_char_def)

subsection \<open>Request ids\<close>

text \<open>
  C8 (amended). The id of a call is the first 8 characters of the text of its UUID and
  nothing else of it: the id is at most 8 characters long, two calls have different ids
  exactly when their UUIDs differ within the first 8 characters, and two calls whose
  UUIDs agree there behave alike in everything. No step checks the id against the ids in
  use: a call issued under an id whose request is still open replaces that request file.
\<close>

theorem request_id_is_uuid_prefix:
  "length (new_request_id uuid4) \<le> 8
   \<and> (take 8 uuid4 \<noteq> take 8 uuid4' \<longrightarrow> new_request_id uuid4 \<noteq> new_request_id uuid4')
   \<and> (take 8 uuid4 = take 8 uuid4' \<longrightarrow>
        new_request_id uuid4 = new_request_id uuid4'
        \<and> oracle_call question ctx urgency timeout_seconds uuid4 timestamp start_time ticks b
            = oracle_call question ctx urgency timeout_seconds uuid4' timestamp start_time ticks b
        \<and> write_request (new_request_id uuid4') data2 (write_request (new_request_id uuid4) data1 b)
            = write_request (new_request_id uuid4') data2 b)"
  by (simp add: new_request_id_def oracle_call_def write_request_twice)

theorem request_id_is_uuid_prefix_witness:
  "take 8 ''3f2a9c1e-1111-4111-8111-111111111111'' \<noteq> take 8 ''7b0c4d2a-1111-4111-8111-111111111111''
   \<and> new_request_id ''3f2a9c1e-1111-4111-8111-111111111111''
       \<noteq> new_request_id ''7b0c4d2a-1111-4111-8111-111111111111''
   \<and> take 8 ''3f2a9c1e-1111-4111-8111-111111111111'' = take 8 ''3f2a9c1e-2222-4222-8222-222222222222''
   \<and> new_request_id ''3f2a9c1e-1111-4111-8111-111111111111''
       = new_request_id ''3f2a9c1e-2222-4222-8222-222222222222''
   \<and> write_request (new_request_id ''3f2a9c1e-2222-4222-8222-222222222222'') [(''question'', JStr ''B?'')]
        (write_request (new_request_id ''3f2a9c1e-1111-4111-8111-111111111111'')
           [(''question'', JStr ''A?'')] empty_bus)
       = write_request (new_request_id ''3f2a9c1e-2222-4222-8222-222222222222'')
           [(''question'', JStr ''B?'')] empty_bus"
  using request_id_is_uuid_prefix [of "''3f2a9c1e-1111-4111-8111-111111111111''"
      "''7b0c4d2a-1111-4111-8111-111111111111''"]
    request_id_is_uuid_prefix [of "''3f2a9c1e-1111-4111-8111-111111111111''"
      "''3f2a9c1e-2222-4222-8222-222222222222''" "[]" "[]" "[]" 0 "[]" 0 "[]" empty_bus
      "[(''question'', JStr ''B?'')]" "[(''question'', JStr ''A?'')]"]
  by (simp add: write_request_twice)

text \<open>
  The claim as stated fails: two calls with different UUIDs that share their first 8
  characters get the same id, and the request of the second replaces the request of the
  first in the requests directory.
\<close>

theorem request_id_is_uuid_prefix_counterexample:
  "''3f2a9c1e-1111-4111-8111-111111111111'' \<noteq> ''3f2a9c1e-2222-4222-8222-222222222222''
   \<and> new_request_id ''3f2a9c1e-1111-4111-8111-111111111111''
       = new_request_id ''3f2a9c1e-2222-4222-8222-222222222222''
   \<and> requests
        (write_request (new_request_id ''3f2a9c1e-2222-4222-8222-222222222222'')
           (request_data (new_request_id ''3f2a9c1e-2222-4222-8222-222222222222'')
              ''Pick A or B?'' [] ''high'' ''2026-01-01T00:00:07+00:00'')
           (write_request (new_request_id ''3f2a9c1e-1111-4111-8111-111111111111'')
              (request_data (new_request_id ''3f2a9c1e-1111-4111-8111-111111111111'')
                 ''Deploy to prod?'' [] ''normal'' ''2026-01-01T00:00:00+00:00'')
              empty_bus))
       = [(''3f2a9c1e'',
           Json (Dict (request_data ''3f2a9c1e'' ''Pick A or B?'' [] ''high''
                         ''2026-01-01T00:00:07+00:00'')))]"
  by (simp add: new_request_id_def write_request_def empty_bus_def)

subsection \<open>A timeout that is not positive\<close>

text \<open>
  C9 (amended). With \<open>timeout_seconds\<close> at most zero, and provided the clock has not run
  backwards between the reading of \<open>start_time\<close> and the first loop test, the loop body
  is never entered: whatever the responses directory holds, a readable response for the
  id, a garbled one or none, \<open>oracle_call\<close> returns the timeout text, having written the
  request anew with status timeout and archived the exchange; its log is the one loop
  test, with no poll and no sleep.
\<close>

theorem oracle_call_nonpositive_timeout:
  assumes "timeout_seconds \<le> 0" and "start_time \<le> clock t"
  shows "oracle_call question ctx urgency timeout_seconds uuid4 timestamp start_time (t # ts) b =
           Some (Inr (timeout_text timeout_seconds (new_request_id uuid4)),
                 archive_exchange (utc_stamp t) (new_request_id uuid4)
                   (write_request (new_request_id uuid4)
                      (AList.update ''status'' (JStr ''timeout'')
                         (request_data (new_request_id uuid4) question ctx urgency timestamp)) b))
       \<and> oracle_call_events question ctx urgency timeout_seconds uuid4 timestamp start_time (t # ts) b
           = [Tested (clock t)]"
proof -
  from assms have "of_int timeout_seconds \<le> (0::rat)" by simp
  with assms(2) have over: "\<not> clock t - start_time < of_int timeout_seconds" by linarith
  then have "oracle_call question ctx urgency timeout_seconds uuid4 timestamp start_time (t # ts) b =
           Some (Inr (timeout_text timeout_seconds (new_request_id uuid4)),
                 archive_exchange (utc_stamp t) (new_request_id uuid4)
                   (write_request (new_request_id uuid4)
                      (AList.update ''status'' (JStr ''timeout'')
                         (request_data (new_request_id uuid4) question ctx urgency timestamp)) b))"
    by (simp add: oracle_call_def Let_def write_request_twice del: poll.simps add: poll_timed_out)
  moreover from over
  have "oracle_call_events question ctx urgency timeout_seconds uuid4 timestamp start_time (t # ts) b
           = [Tested (clock t)]"
    by (simp add: oracle_call_events_def Let_def)
  ultimately show ?thesis
    by (rule conjI)
qed

theorem oracle_call_nonpositive_timeout_witness:
  "(0::int) \<le> 0
   \<and> (100::rat) \<le> clock \<lparr>clock = 100, utc_stamp = ''20260101_000000'', meanwhile = (\<lambda>b. b)\<rparr>
   \<and> oracle_call ''Deploy?'' [] ''normal'' 0 ''3f2a9c1e-1111-4111-8111-111111111111''
         ''2026-01-01T00:00:00+00:00'' 100
         [\<lparr>clock = 100, utc_stamp = ''20260101_000000'', meanwhile = (\<lambda>b. b)\<rparr>]
         \<lparr>requests = [], responses = [(''3f2a9c1e'', Json (Dict [(''answer'', JStr ''A'')]))],
          history = []\<rparr>
     = Some (Inr ''Oracle call timed out after 0s. The oracle did not respond. Request ID: 3f2a9c1e'',
         \<lparr>requests = [], responses = [],
          history =
            [(''20260101_000000'',
              \<lparr>hreq =
                 [(''3f2a9c1e'',
                   Json (Dict
                     [(''id'', JStr ''3f2a9c1e''), (''type'', JStr ''oracle_call''),
                      (''from_level'', JInt 2), (''to_level'', JInt 3),
                      (''question'', JStr ''Deploy?''), (''context'', JStr []),
                      (''urgency'', JStr ''normal''),
                      (''timestamp'', JStr ''2026-01-01T00:00:00+00:00''),
                      (''status'', JStr ''timeout'')]))],
               hresp = [(''3f2a9c1e'', Json (Dict [(''answer'', JStr ''A'')]))]\<rparr>)]\<rparr>)
   \<and> oracle_call_events ''Deploy?'' [] ''normal'' 0 ''3f2a9c1e-1111-4111-8111-111111111111''
         ''2026-01-01T00:00:00+00:00'' 100
         [\<lparr>clock = 100, utc_stamp = ''20260101_000000'', meanwhile = (\<lambda>b. b)\<rparr>]
         \<lparr>requests = [], responses = [(''3f2a9c1e'', Json (Dict [(''answer'', JStr ''A'')]))],
          history = []\<rparr>
     = [Tested 100]"
  using oracle_call_nonpositive_timeout [of 0 100
      "\<lparr>clock = 100, utc_stamp = ''20260101_000000'', meanwhile = (\<lambda>b. b)\<rparr>"
      "''Deploy?''" "[]" "''normal''" "''3f2a9c1e-1111-4111-8111-111111111111''"
      "''2026-01-01T00:00:00+00:00''" "[]"
      "\<lparr>requests = [], responses = [(''3f2a9c1e'', Json (Dict [(''answer'', JStr ''A'')]))],
          history = []\<rparr>"]
  by (simp add: timeout_text_def new_request_id_def request_data_def dec_int_def digit_def
      archive_exchange_def mk_archive_dir_def move_request_def move_response_def
      write_request_def empty_hdir_def)

text \<open>
  The claim as stated fails when the wall clock is set back between the two readings of
  \<open>time.time()\<close>: with \<open>start_time\<close> 100 and 99 read in the first loop test, the
  elapsed time is below a timeout of 0, the loop body runs, the response in the store is
  read, and the call returns it.
\<close>

theorem oracle_call_nonpositive_timeout_counterexample:
  "oracle_call ''Deploy?'' [] ''normal'' 0 ''3f2a9c1e-1111-4111-8111-111111111111''
     ''2026-01-01T00:00:00+00:00'' 100
     [idle_tick 99 ''20260101_000000'']
     \<lparr>requests = [], responses = [(''3f2a9c1e'', Json (Dict [(''answer'', JStr ''A'')]))],
      history = []\<rparr>
   = Some (Inr ''Oracle response (oracle): A'',
       \<lparr>requests = [], responses = [],
        history =
          [(''20260101_000000'',
            \<lparr>hreq =
               [(''3f2a9c1e'',
                 Json (Dict
                   [(''id'', JStr ''3f2a9c1e''), (''type'', JStr ''oracle_call''),
                    (''from_level'', JInt 2), (''to_level'', JInt 3),
                    (''question'', JStr ''Deploy?''), (''context'', JStr []),
                    (''urgency'', JStr ''normal''),
                    (''timestamp'', JStr ''2026-01-01T00:00:00+00:00''),
                    (''status'', JStr ''pending'')]))],
             hresp = [(''3f2a9c1e'', Json (Dict [(''answer'', JStr ''A'')]))]\<rparr>)]\<rparr>)
   \<and> oracle_call_events ''Deploy?'' [] ''normal'' 0 ''3f2a9c1e-1111-4111-8111-111111111111''
       ''2026-01-01T00:00:00+00:00'' 100
       [idle_tick 99 ''20260101_000000'']
       \<lparr>requests = [], responses = [(''3f2a9c1e'', Json (Dict [(''answer'', JStr ''A'')]))],
        history = []\<rparr>
     = [Tested 99, Polled]"
  by (simp add: oracle_call_def oracle_call_events_def Let_def new_request_id_def request_data_def
      idle_tick_def response_text_def andthen_def py_get_def json_load_def
      read_response_def write_request_def
      archive_exchange_def mk_archive_dir_def move_request_def move_response_def empty_hdir_def)

subsection \<open>Answering twice\<close>

text \<open>
  C10. When the request path of the id names a file that holds a JSON object (for an id
  without \<open>/\<close>: when a request holding a JSON object is open under the id),
  \<open>respond_to_oracle_call\<close> writes the response file whether or not one exists. Of two
  calls in a row both return the "Response recorded" text; after the first the response
  file holds the record with the first answer, after the second it holds the record with
  the second answer and responder \<open>oracle\<close>, and the bus is the one the second call
  alone would have left: nothing of the first answer remains.
\<close>

theorem respond_overwrites:
  assumes "content_at b (locate b ''requests'' request_id) = Some (Json (Dict r))"
  shows "fst (respond_to_oracle_call request_id answer1 iso1 b) =
           Inr (''Response recorded for request '' @ request_id
                  @ ''. The caller will receive it shortly.'')
       \<and> respond_to_oracle_call request_id answer2 iso2
           (snd (respond_to_oracle_call request_id answer1 iso1 b)) =
           (Inr (''Response recorded for request '' @ request_id
                  @ ''. The caller will receive it shortly.''),
            snd (respond_to_oracle_call request_id answer2 iso2 b))
       \<and> content_at (snd (respond_to_oracle_call request_id answer1 iso1 b))
             (locate b ''responses'' request_id) =
           Some (Json (Dict
              [(''id'', JStr request_id), (''type'', JStr ''oracle_response''),
               (''question'', case map_of r ''question'' of None \<Rightarrow> JStr [] | Some v \<Rightarrow> v),
               (''answer'', JStr answer1), (''responder'', JStr ''oracle''),
               (''timestamp'', JStr iso1)]))
       \<and> content_at (snd (respond_to_oracle_call request_id answer2 iso2
               (snd (respond_to_oracle_call request_id answer1 iso1 b))))
             (locate b ''responses'' request_id) =
           Some (Json (Dict
              [(''id'', JStr request_id), (''type'', JStr ''oracle_response''),
               (''question'', case map_of r ''question'' of None \<Rightarrow> JStr [] | Some v \<Rightarrow> v),
               (''answer'', JStr answer2), (''responder'', JStr ''oracle''),
               (''timestamp'', JStr iso2)]))
       \<and> map_of
              [(''id'', JStr request_id), (''type'', JStr ''oracle_response''),
               (''question'', case map_of r ''question'' of None \<Rightarrow> JStr [] | Some v \<Rightarrow> v),
               (''answer'', JStr answer2), (''responder'', JStr ''oracle''),
               (''timestamp'', JStr iso2)]
             ''answer'' = Some (JStr answer2)
       \<and> (CHR ''/'' \<notin> set request_id \<longrightarrow>
            map_of (responses (snd (respond_to_oracle_call request_id answer2 iso2
               (snd (respond_to_oracle_call request_id answer1 iso1 b))))) request_id =
            Some (Json (Dict
              [(''id'', JStr request_id), (''type'', JStr ''oracle_response''),
               (''question'', case map_of r ''question'' of None \<Rightarrow> JStr [] | Some v \<Rightarrow> v),
               (''answer'', JStr answer2), (''responder'', JStr ''oracle''),
               (''timestamp'', JStr iso2)])))"
proof -
  let ?q = "case map_of r ''question'' of None \<Rightarrow> JStr [] | Some v \<Rightarrow> v"
  let ?resp = "locate b ''responses'' request_id"
  let ?rec1 = "Json (Dict (response_data request_id ?q answer1 iso1))"
  let ?rec2 = "Json (Dict (response_data request_id ?q answer2 iso2))"
  let ?b1 = "write_at ?resp ?rec1 b"
  let ?ok = "Inr (''Response recorded for request '' @ request_id
                  @ ''. The caller will receive it shortly.'') :: error + string"
  have first: "respond_to_oracle_call request_id answer1 iso1 b = (?ok, ?b1)"
    by (rule respond_recorded [OF assms])
  have alone: "respond_to_oracle_call request_id answer2 iso2 b = (?ok, write_at ?resp ?rec2 b)"
    by (rule respond_recorded [OF assms])
  from request_after_response_written [OF assms refl, of answer1 iso1]
  obtain r' where r': "content_at ?b1 (locate b ''requests'' request_id) = Some (Json (Dict r'))"
    and q': "(case map_of r' ''question'' of None \<Rightarrow> JStr [] | Some v \<Rightarrow> v) = ?q"
    by blast
  from r' have "content_at ?b1 (locate ?b1 ''requests'' request_id) = Some (Json (Dict r'))"
    by (simp add: locate_write_at)
  from respond_recorded [OF this, of answer2 iso2]
  have second: "respond_to_oracle_call request_id answer2 iso2 ?b1 = (?ok, write_at ?resp ?rec2 b)"
    by (simp add: q' locate_write_at write_at_twice)
  have held: "content_at (write_at ?resp f b) ?resp = Some f" for f
  proof -
    from locate_pair [OF assms] show ?thesis
    proof
      assume "?resp = locate b ''requests'' request_id"
      with assms show ?thesis by (simp add: content_at_written)
    next
      assume "\<exists>k. locate b ''requests'' request_id = Request_file k \<and> ?resp = Response_file k"
      then show ?thesis by (auto simp: update_conv')
    qed
  qed
  have plain: "map_of (responses (write_at ?resp ?rec2 b)) request_id = Some ?rec2"
    if "CHR ''/'' \<notin> set request_id"
    by (simp add: locate_plain [OF that] update_conv')
  show ?thesis
    by (simp only: first second alone fst_conv snd_conv)
       (use held [of ?rec1] held [of ?rec2] plain in \<open>simp add: response_data_def\<close>)
qed

theorem respond_overwrites_witness:
  "content_at \<lparr>requests = [(''3f2a9c1e'', Json (Dict [(''id'', JStr ''3f2a9c1e''), (''question'', JStr ''Pick A or B?'')]))],
        responses = [], history = []\<rparr>
       (locate \<lparr>requests = [(''3f2a9c1e'', Json (Dict [(''id'', JStr ''3f2a9c1e''), (''question'', JStr ''Pick A or B?'')]))],
        responses = [], history = []\<rparr> ''requests'' ''3f2a9c1e'')
     = Some (Json (Dict [(''id'', JStr ''3f2a9c1e''), (''question'', JStr ''Pick A or B?'')]))
   \<and> CHR ''/'' \<notin> set ''3f2a9c1e''
   \<and> responses (snd (respond_to_oracle_call ''3f2a9c1e'' ''A'' ''2026-01-01T00:00:03+00:00''
            \<lparr>requests = [(''3f2a9c1e'', Json (Dict [(''id'', JStr ''3f2a9c1e''), (''question'', JStr ''Pick A or B?'')]))],
        responses = [], history = []\<rparr>))
     = [(''3f2a9c1e'', Json (Dict
          [(''id'', JStr ''3f2a9c1e''), (''type'', JStr ''oracle_response''),
           (''question'', JStr ''Pick A or B?''), (''answer'', JStr ''A''),
           (''responder'', JStr ''oracle''), (''timestamp'', JStr ''2026-01-01T00:00:03+00:00'')]))]
   \<and> responses (snd (respond_to_oracle_call ''3f2a9c1e'' ''B'' ''2026-01-01T00:00:05+00:00''
         (snd (respond_to_oracle_call ''3f2a9c1e'' ''A'' ''2026-01-01T00:00:03+00:00''
            \<lparr>requests = [(''3f2a9c1e'', Json (Dict [(''id'', JStr ''3f2a9c1e''), (''question'', JStr ''Pick A or B?'')]))],
        responses = [], history = []\<rparr>))))
     = [(''3f2a9c1e'', Json (Dict
          [(''id'', JStr ''3f2a9c1e''), (''type'', JStr ''oracle_response''),
           (''question'', JStr ''Pick A or B?''), (''answer'', JStr ''B''),
           (''responder'', JStr ''oracle''), (''timestamp'', JStr ''2026-01-01T00:00:05+00:00'')]))]"
  using respond_overwrites [of
      "\<lparr>requests = [(''3f2a9c1e'', Json (Dict [(''id'', JStr ''3f2a9c1e''), (''question'', JStr ''Pick A or B?'')]))],
        responses = [], history = []\<rparr>"
      "''3f2a9c1e''" "[(''id'', JStr ''3f2a9c1e''), (''question'', JStr ''Pick A or B?'')]"
      "''A''" "''2026-01-01T00:00:03+00:00''" "''B''" "''2026-01-01T00:00:05+00:00''"]
  by (simp add: respond_plain locate_plain response_data_def andthen_def json_load_def py_get_def)

end
